theory Spec2Isabelle
  imports Complex_Main
begin

section \<open>JavaScript values\<close>

text \<open>
  The client in \<^verbatim>\<open>dev/src/index.ts\<close> receives untyped values at run time: settings
  objects, transaction options, headers. They are modelled by a datatype of values. A
  number is a rational or one of the three special floating point values; an object is
  a kind together with a map from its own enumerable property names to values.
\<close>

datatype jsnum = Finite rat | NaN | PosInf | NegInf

datatype jskind = PlainObject | FunctionObject | TimestampObject

datatype jsval =
    JUndefined
  | JNull
  | JBool bool
  | JNum jsnum
  | JStr string
  | JObj jskind "string \<Rightarrow> jsval option"

type_synonym obj = "string \<Rightarrow> jsval option"

text \<open>Reading a property of an object literal: a missing key reads as \<^verbatim>\<open>undefined\<close>.\<close>

definition getProp :: "obj \<Rightarrow> string \<Rightarrow> jsval" where
  "getProp m k = (case m k of None \<Rightarrow> JUndefined | Some v \<Rightarrow> v)"

text \<open>
  \<^verbatim>\<open>v.k\<close> on a value that is neither \<^verbatim>\<open>undefined\<close> nor \<^verbatim>\<open>null\<close>, for the
  property names the client reads (none of them is defined on a prototype): primitives
  have no such property.
\<close>

fun getMember :: "jsval \<Rightarrow> string \<Rightarrow> jsval" where
  "getMember (JObj _ m) k = getProp m k"
| "getMember _ k = JUndefined"

fun isUndefined :: "jsval \<Rightarrow> bool" where
  "isUndefined JUndefined = True"
| "isUndefined _ = False"

text \<open>\<^verbatim>\<open>v === false\<close>\<close>

fun isFalse :: "jsval \<Rightarrow> bool" where
  "isFalse (JBool b) = (\<not> b)"
| "isFalse _ = False"

text \<open>The truthiness test of \<^verbatim>\<open>if (v)\<close> and \<^verbatim>\<open>v || w\<close>.\<close>

fun truthy :: "jsval \<Rightarrow> bool" where
  "truthy JUndefined = False"
| "truthy JNull = False"
| "truthy (JBool b) = b"
| "truthy (JNum (Finite r)) = (r \<noteq> 0)"
| "truthy (JNum NaN) = False"
| "truthy (JNum PosInf) = True"
| "truthy (JNum NegInf) = True"
| "truthy (JStr s) = (s \<noteq> [])"
| "truthy (JObj _ _) = True"

definition js_or :: "jsval \<Rightarrow> jsval \<Rightarrow> jsval" where
  "js_or a b = (if truthy a then a else b)"

text \<open>Decimal numerals, for the index keys of a string and for \<^verbatim>\<open>Number(url.port)\<close>.\<close>

definition digitChar :: "nat \<Rightarrow> char" where
  "digitChar d = ''0123456789'' ! (d mod 10)"

fun decimal :: "nat \<Rightarrow> string" where
  "decimal n = (if n < 10 then [digitChar n] else decimal (n div 10) @ [digitChar (n mod 10)])"

definition digitValue :: "char \<Rightarrow> nat" where
  "digitValue c = of_char c - 48"

definition Number_of_digits :: "string \<Rightarrow> jsval" where
  "Number_of_digits ds = JNum (Finite (of_nat (foldl (\<lambda>n c. 10 * n + digitValue c) 0 ds)))"

text \<open>
  The own enumerable properties that the spread \<^verbatim>\<open>{...v}\<close> copies: the fields of an
  object, the indexed characters of a string, nothing for the other primitives.
\<close>

fun ownProps :: "jsval \<Rightarrow> obj" where
  "ownProps (JObj _ m) = m"
| "ownProps (JStr s) = map_of (zip (map decimal [0..<length s]) (map (\<lambda>c. JStr [c]) s))"
| "ownProps _ = Map.empty"


section \<open>Argument validation\<close>

text \<open>
  The validators of \<^verbatim>\<open>validate.ts\<close> throw on an invalid argument. Each is modelled by
  the predicate "does not throw"; the caller turns a failure into the thrown error.
\<close>

datatype error =
    InvalidArgument string
  | AlreadyInitialized
  | NotADocument string
  | NotACollection string
  | ClientNotReady
  | CannotTerminate int int
  | TransportError nat

text \<open>Modelled from the spec: \<^verbatim>\<open>validateObject\<close> of validate.ts, which is not among the
  sources; it accepts objects that are not functions.\<close>

fun validateObject :: "jsval \<Rightarrow> bool" where
  "validateObject (JObj k _) = (k \<noteq> FunctionObject)"
| "validateObject _ = False"

text \<open>Modelled from the spec: \<^verbatim>\<open>validateFunction\<close> of validate.ts, which is not among the
  sources; it accepts functions.\<close>

fun validateFunction :: "jsval \<Rightarrow> bool" where
  "validateFunction (JObj k _) = (k = FunctionObject)"
| "validateFunction _ = False"

text \<open>Modelled from the spec: \<^verbatim>\<open>validateString\<close> of validate.ts, which is not among the
  sources; the first argument is the \<^verbatim>\<open>optional\<close> flag, under which \<^verbatim>\<open>undefined\<close> is
  accepted.\<close>

fun validateString :: "bool \<Rightarrow> jsval \<Rightarrow> bool" where
  "validateString optional JUndefined = optional"
| "validateString optional (JStr s) = True"
| "validateString optional _ = False"

text \<open>Modelled from the spec: \<^verbatim>\<open>validateBoolean\<close> of validate.ts, which is not among the
  sources (\<^verbatim>\<open>readOnly?: boolean\<close>).\<close>

fun validateBoolean :: "bool \<Rightarrow> jsval \<Rightarrow> bool" where
  "validateBoolean optional JUndefined = optional"
| "validateBoolean optional (JBool b) = True"
| "validateBoolean optional _ = False"

text \<open>Modelled from the spec: \<^verbatim>\<open>validateTimestamp\<close> of validate.ts, which is not among the
  sources (\<^verbatim>\<open>readTime?: Timestamp\<close>).\<close>

fun validateTimestamp :: "bool \<Rightarrow> jsval \<Rightarrow> bool" where
  "validateTimestamp optional JUndefined = optional"
| "validateTimestamp optional (JObj k m) = (k = TimestampObject)"
| "validateTimestamp optional _ = False"

definition isInteger :: "rat \<Rightarrow> bool" where
  "isInteger r = (of_int \<lfloor>r\<rfloor> = r)"

text \<open>Modelled from the spec: \<^verbatim>\<open>validateInteger\<close> of validate.ts, which is not among the
  sources (\<^verbatim>\<open>maxAttempts?: integer \<ge> 1\<close>); the arguments are the \<^verbatim>\<open>optional\<close> flag and
  \<^verbatim>\<open>minValue\<close>.\<close>

fun validateInteger :: "bool \<Rightarrow> int \<Rightarrow> jsval \<Rightarrow> bool" where
  "validateInteger optional minValue JUndefined = optional"
| "validateInteger optional minValue (JNum (Finite r)) = (isInteger r \<and> of_int minValue \<le> r)"
| "validateInteger optional minValue _ = False"


section \<open>Constants\<close>

definition CLOUD_RESOURCE_HEADER :: string where
  "CLOUD_RESOURCE_HEADER = ''google-cloud-resource-prefix''"

definition MAX_REQUEST_RETRIES :: nat where
  "MAX_REQUEST_RETRIES = 5"

definition DEFAULT_MAX_TRANSACTION_ATTEMPTS :: jsval where
  "DEFAULT_MAX_TRANSACTION_ATTEMPTS = JNum (Finite 5)"

text \<open>Modelled from the spec: the constant \<^verbatim>\<open>DEFAULT_DATABASE_ID\<close> of path.ts, which is not
  among the sources; its value is the one in \<^verbatim>\<open>DATABASE_ROOT\<close> of the repository's query
  tests.\<close>

definition DEFAULT_DATABASE_ID :: string where
  "DEFAULT_DATABASE_ID = ''(default)''"


section \<open>The platform\<close>

text \<open>
  What the client takes from its surroundings: the process environment, the package
  version, the string conversion of a value, the verdict of \<^verbatim>\<open>validateHost\<close>, the
  parser behind \<^verbatim>\<open>new URL(...)\<close>, the path validator and splitter of path.ts, and the
  classification \<^verbatim>\<open>isPermanentRpcError\<close> of util.ts. None of them is among the
  sources, so they are parameters of the model.
\<close>

record url =
  hostname :: string
  port :: string

record platform =
  env :: "string \<Rightarrow> string option"
  libVersion :: string
  ToString :: "jsval \<Rightarrow> string"
  hostOk :: "string \<Rightarrow> bool"
  URL :: "string \<Rightarrow> url"
  validateResourcePath :: "string \<Rightarrow> bool"
  split :: "string \<Rightarrow> string list"
  isPermanentRpcError :: "error \<Rightarrow> string \<Rightarrow> bool"

text \<open>\<^verbatim>\<open>validateHost\<close>: a string that the platform's check accepts.\<close>

fun validateHost :: "platform \<Rightarrow> jsval \<Rightarrow> bool" where
  "validateHost p (JStr h) = hostOk p h"
| "validateHost p _ = False"


section \<open>The client\<close>

text \<open>
  The call options handed to a transport client, and the calls that reach the client
  pool, in order. The pool itself is an external collaborator; the log is what the
  client asks of it.
\<close>

record callOptions =
  headers :: obj
  retryOptions :: "nat list option"

datatype pool_call =
    GetProjectId
  | UnaryCall string callOptions
  | StreamCall string callOptions
  | PoolTerminate

record firestore =
  fs_settings :: obj
  fs_settingsFrozen :: bool
  fs_projectId :: "string option"
  registeredListenersCount :: int
  bulkWritersCount :: int
  poolLog :: "pool_call list"

datatype 'a call_result = Throws error | Returns 'a

datatype ('e, 'a) promise = Unsettled | Resolves 'a | Rejects 'e

subsection \<open>Settings\<close>

text \<open>
  The part of \<^verbatim>\<open>validateAndApplySettings\<close> after the project ID: the host from the
  environment or the settings, the stored service path and port, and the last two
  checks. The result is the settings object to store. The warning about a service
  path that differs from the host is not represented.
\<close>

definition emulatorHost :: "platform \<Rightarrow> string option" where
  "emulatorHost p =
     (case env p ''FIRESTORE_EMULATOR_HOST'' of
        None \<Rightarrow> None
      | Some h \<Rightarrow> if h = [] then None else Some h)"

definition storeHost :: "url \<Rightarrow> obj \<Rightarrow> obj" where
  "storeHost u settings =
     (let s1 = settings(''servicePath'' \<mapsto> JStr (hostname u));
          s2 = (if port u \<noteq> [] \<and> isUndefined (getProp s1 ''port'')
                then s1(''port'' \<mapsto> Number_of_digits (port u)) else s1)
      in (s2(''host'' := None))(''apiEndpoint'' := None))"

definition checkSslAndChannels :: "obj \<Rightarrow> obj call_result" where
  "checkSslAndChannels settings =
     (if \<not> isUndefined (getProp settings ''ssl'')
         \<and> \<not> validateBoolean False (getProp settings ''ssl'')
      then Throws (InvalidArgument ''settings.ssl'')
      else if \<not> isUndefined (getProp settings ''maxIdleChannels'')
         \<and> \<not> validateInteger False 0 (getProp settings ''maxIdleChannels'')
      then Throws (InvalidArgument ''settings.maxIdleChannels'')
      else Returns settings)"

text \<open>The template literal \<^verbatim>\<open>`${v}`\<close>: a string as it is, any other value converted.\<close>

definition templateString :: "platform \<Rightarrow> jsval \<Rightarrow> string" where
  "templateString p v = (case v of JStr str \<Rightarrow> str | _ \<Rightarrow> ToString p v)"

definition resolveHost :: "platform \<Rightarrow> obj \<Rightarrow> obj call_result" where
  "resolveHost p settings =
     (case emulatorHost p of
        Some h \<Rightarrow>
          if \<not> validateHost p (JStr h) then Throws (InvalidArgument ''FIRESTORE_EMULATOR_HOST'')
          else checkSslAndChannels
                 (storeHost (URL p (''http://'' @ h))
                    (settings(''host'' \<mapsto> JStr h, ''ssl'' \<mapsto> JBool False)))
      | None \<Rightarrow>
          if isUndefined (getProp settings ''host'') then checkSslAndChannels settings
          else if \<not> validateHost p (getProp settings ''host'')
          then Throws (InvalidArgument ''settings.host'')
          else checkSslAndChannels
                 (storeHost (URL p (''http://'' @ templateString p (getProp settings ''host'')))
                    settings))"

text \<open>
  \<^verbatim>\<open>validateAndApplySettings\<close>: the project ID is stored before the later checks, so a
  throw may leave it changed; the settings are stored only when every check passed.
  The serializer that is created last is not represented.
\<close>

definition validateAndApplySettings ::
  "platform \<Rightarrow> firestore \<Rightarrow> obj \<Rightarrow> unit call_result \<times> firestore" where
  "validateAndApplySettings p s settings =
     (case getProp settings ''projectId'' of
        JUndefined \<Rightarrow>
          (case resolveHost p settings of
             Throws e \<Rightarrow> (Throws e, s)
           | Returns st \<Rightarrow> (Returns (), s\<lparr>fs_settings := st\<rparr>))
      | JStr pid \<Rightarrow>
          (case resolveHost p settings of
             Throws e \<Rightarrow> (Throws e, s\<lparr>fs_projectId := Some pid\<rparr>)
           | Returns st \<Rightarrow> (Returns (), s\<lparr>fs_projectId := Some pid, fs_settings := st\<rparr>))
      | _ \<Rightarrow> (Throws (InvalidArgument ''settings.projectId''), s))"

text \<open>The state of the fields before the constructor body runs.\<close>

definition fresh :: firestore where
  "fresh = \<lparr>fs_settings = Map.empty, fs_settingsFrozen = False, fs_projectId = None,
            registeredListenersCount = 0, bulkWritersCount = 0, poolLog = []\<rparr>"

text \<open>
  The constructor: the library header is merged over the given settings and the result
  applied. The client pool it then creates has received no call.
\<close>

definition libraryHeader :: "platform \<Rightarrow> jsval \<Rightarrow> obj" where
  "libraryHeader p settings =
     [''libName'' \<mapsto> JStr ''gccl'',
      ''libVersion'' \<mapsto> JStr
         (if truthy settings \<and> truthy (getMember settings ''firebaseVersion'')
          then libVersion p @ '' fire/'' @ ToString p (getMember settings ''firebaseVersion'')
          else libVersion p)]"

definition constructor :: "platform \<Rightarrow> jsval \<Rightarrow> firestore call_result" where
  "constructor p settings =
     (case validateAndApplySettings p fresh (ownProps settings ++ libraryHeader p settings) of
        (Throws e, s) \<Rightarrow> Throws e
      | (Returns u, s) \<Rightarrow> Returns s)"

text \<open>\<^verbatim>\<open>settings()\<close>\<close>

definition settings :: "platform \<Rightarrow> firestore \<Rightarrow> jsval \<Rightarrow> unit call_result \<times> firestore" where
  "settings p s arg =
     (if \<not> validateObject arg then (Throws (InvalidArgument ''settings''), s)
      else if \<not> validateString True (getMember arg ''projectId'')
      then (Throws (InvalidArgument ''settings.projectId''), s)
      else if fs_settingsFrozen s then (Throws AlreadyInitialized, s)
      else (case validateAndApplySettings p s (fs_settings s ++ ownProps arg) of
              (Throws e, s') \<Rightarrow> (Throws e, s')
            | (Returns u, s') \<Rightarrow> (Returns (), s'\<lparr>fs_settingsFrozen := True\<rparr>)))"

subsection \<open>Project ID and database root\<close>

definition projectId :: "firestore \<Rightarrow> string call_result" where
  "projectId s = (case fs_projectId s of None \<Rightarrow> Throws ClientNotReady | Some pid \<Rightarrow> Returns pid)"

definition formattedName :: "firestore \<Rightarrow> string call_result" where
  "formattedName s =
     (case projectId s of
        Throws e \<Rightarrow> Throws e
      | Returns pid \<Rightarrow> Returns (''projects/'' @ pid @ ''/databases/'' @ DEFAULT_DATABASE_ID))"

subsection \<open>References\<close>

datatype ResourcePath = ResourcePath (segments: "string list")

definition EMPTY :: ResourcePath where
  "EMPTY = ResourcePath []"

definition append_path :: "platform \<Rightarrow> ResourcePath \<Rightarrow> string \<Rightarrow> ResourcePath" where
  "append_path p path relativePath = ResourcePath (segments path @ split p relativePath)"

text \<open>Modelled from the spec: \<^verbatim>\<open>ResourcePath.isDocument\<close> of path.ts, which is not among
  the sources: a document path has an even segment count.\<close>

definition isDocument :: "ResourcePath \<Rightarrow> bool" where
  "isDocument path = (length (segments path) mod 2 = 0)"

text \<open>Modelled from the spec: \<^verbatim>\<open>ResourcePath.isCollection\<close> of path.ts, which is not among
  the sources: a collection path has an odd segment count.\<close>

definition isCollection :: "ResourcePath \<Rightarrow> bool" where
  "isCollection path = (length (segments path) mod 2 = 1)"

datatype reference = DocumentReference ResourcePath | CollectionReference ResourcePath

definition doc :: "platform \<Rightarrow> string \<Rightarrow> reference call_result" where
  "doc p documentPath =
     (if \<not> validateResourcePath p documentPath then Throws (InvalidArgument ''documentPath'')
      else let path = append_path p EMPTY documentPath
           in if \<not> isDocument path then Throws (NotADocument documentPath)
              else Returns (DocumentReference path))"

definition collection :: "platform \<Rightarrow> string \<Rightarrow> reference call_result" where
  "collection p collectionPath =
     (if \<not> validateResourcePath p collectionPath then Throws (InvalidArgument ''collectionPath'')
      else let path = append_path p EMPTY collectionPath
           in if \<not> isCollection path then Throws (NotACollection collectionPath)
              else Returns (CollectionReference path))"

subsection \<open>Initialization\<close>

text \<open>
  \<^verbatim>\<open>initializeIfNeeded\<close>: \<open>detected\<close> is the outcome of the project ID lookup that the
  pool runs when no project ID is known yet.
\<close>

definition withOwnerHeader :: "obj \<Rightarrow> obj" where
  "withOwnerHeader st =
     (if isFalse (getProp st ''ssl'')
      then st(''customHeaders'' \<mapsto>
             JObj PlainObject ([''Authorization'' \<mapsto> JStr ''Bearer owner'']
                               ++ ownProps (getProp st ''customHeaders'')))
      else st)"

definition initializeIfNeeded ::
  "firestore \<Rightarrow> (error, string) promise \<Rightarrow> (error, unit) promise \<times> firestore" where
  "initializeIfNeeded s detected =
     (let s1 = s\<lparr>fs_settingsFrozen := True, fs_settings := withOwnerHeader (fs_settings s)\<rparr>
      in case fs_projectId s1 of
           Some pid \<Rightarrow> (Resolves (), s1)
         | None \<Rightarrow>
             (let s2 = s1\<lparr>poolLog := poolLog s1 @ [GetProjectId]\<rparr>
              in case detected of
                   Unsettled \<Rightarrow> (Unsettled, s2)
                 | Rejects err \<Rightarrow> (Rejects err, s2)
                 | Resolves pid \<Rightarrow> (Resolves (), s2\<lparr>fs_projectId := Some pid\<rparr>)))"

subsection \<open>Transactions\<close>

text \<open>The options that \<^verbatim>\<open>runTransaction\<close> hands to \<^verbatim>\<open>Transaction.runTransaction\<close>.\<close>

record transactionArgs =
  maxAttempts :: jsval
  readOnly :: bool
  readTime :: jsval

text \<open>The block of \<^verbatim>\<open>runTransaction\<close> that validates the options and sets the three
  local variables.\<close>

definition readTransactionOptions :: "jsval \<Rightarrow> transactionArgs call_result" where
  "readTransactionOptions transactionOptions =
     (if \<not> truthy transactionOptions
      then Returns \<lparr>maxAttempts = DEFAULT_MAX_TRANSACTION_ATTEMPTS, readOnly = False,
                    readTime = JUndefined\<rparr>
      else if \<not> validateObject transactionOptions
      then Throws (InvalidArgument ''transactionOptions'')
      else if \<not> validateBoolean True (getMember transactionOptions ''readOnly'')
      then Throws (InvalidArgument ''transactionOptions.readOnly'')
      else if truthy (getMember transactionOptions ''readOnly'')
      then (if \<not> validateTimestamp True (getMember transactionOptions ''readTime'')
            then Throws (InvalidArgument ''transactionOptions.readTime'')
            else Returns \<lparr>maxAttempts = JNum (Finite 1), readOnly = True,
                          readTime = getMember transactionOptions ''readTime''\<rparr>)
      else (if \<not> validateInteger True 1 (getMember transactionOptions ''maxAttempts'')
            then Throws (InvalidArgument ''transactionOptions.maxAttempts'')
            else Returns \<lparr>maxAttempts = js_or (getMember transactionOptions ''maxAttempts'')
                                          DEFAULT_MAX_TRANSACTION_ATTEMPTS,
                          readOnly = False, readTime = JUndefined\<rparr>))"

text \<open>
  \<^verbatim>\<open>runTransaction\<close>: a validation failure throws before anything else happens;
  otherwise the client is initialized and the options are handed to the transaction,
  whose own run (transaction.ts) is not part of this model. The promise resolves here
  with the options that the transaction receives.
\<close>

definition runTransaction ::
  "firestore \<Rightarrow> (error, string) promise \<Rightarrow> jsval \<Rightarrow> jsval
     \<Rightarrow> (error, transactionArgs) promise call_result \<times> firestore" where
  "runTransaction s detected updateFunction transactionOptions =
     (if \<not> validateFunction updateFunction then (Throws (InvalidArgument ''updateFunction''), s)
      else case readTransactionOptions transactionOptions of
             Throws e \<Rightarrow> (Throws e, s)
           | Returns args \<Rightarrow>
               (case initializeIfNeeded s detected of
                  (Unsettled, s') \<Rightarrow> (Returns Unsettled, s')
                | (Rejects err, s') \<Rightarrow> (Returns (Rejects err), s')
                | (Resolves u, s') \<Rightarrow> (Returns (Resolves args), s')))"

subsection \<open>Listeners, bulk writers and termination\<close>

definition registerListener :: "firestore \<Rightarrow> firestore" where
  "registerListener s = s\<lparr>registeredListenersCount := registeredListenersCount s + 1\<rparr>"

definition unregisterListener :: "firestore \<Rightarrow> firestore" where
  "unregisterListener s = s\<lparr>registeredListenersCount := registeredListenersCount s - 1\<rparr>"

definition incrementBulkWritersCount :: "firestore \<Rightarrow> firestore" where
  "incrementBulkWritersCount s = s\<lparr>bulkWritersCount := bulkWritersCount s + 1\<rparr>"

definition decrementBulkWritersCount :: "firestore \<Rightarrow> firestore" where
  "decrementBulkWritersCount s = s\<lparr>bulkWritersCount := bulkWritersCount s - 1\<rparr>"

text \<open>\<^verbatim>\<open>terminate\<close>: \<open>poolResult\<close> is the promise that the pool's own \<^verbatim>\<open>terminate\<close>
  returns.\<close>

definition terminate ::
  "firestore \<Rightarrow> (error, unit) promise \<Rightarrow> (error, unit) promise \<times> firestore" where
  "terminate s poolResult =
     (if registeredListenersCount s > 0 \<or> bulkWritersCount s > 0
      then (Rejects (CannotTerminate (registeredListenersCount s) (bulkWritersCount s)), s)
      else (poolResult, s\<lparr>poolLog := poolLog s @ [PoolTerminate]\<rparr>))"

subsection \<open>Call options and the unary funnel\<close>

text \<open>
  \<^verbatim>\<open>createCallOptions\<close>: the routing header comes first in the object literal, the
  client's custom headers and the method's custom headers are spread after it. The
  retry parameters of \<^verbatim>\<open>getRetryParams\<close> (util.ts) are not represented; the field
  for \<^verbatim>\<open>callOptions.retry\<close> holds the codes.
\<close>

definition createCallOptions ::
  "platform \<Rightarrow> firestore \<Rightarrow> string \<Rightarrow> nat list option \<Rightarrow> callOptions call_result" where
  "createCallOptions p s methodName retryCodes =
     (case formattedName s of
        Throws e \<Rightarrow> Throws e
      | Returns name \<Rightarrow>
          Returns \<lparr>headers =
                     [CLOUD_RESOURCE_HEADER \<mapsto> JStr name]
                       ++ ownProps (getProp (fs_settings s) ''customHeaders'')
                       ++ (case getProp (fs_settings s) methodName of
                             JUndefined \<Rightarrow> Map.empty
                           | JNull \<Rightarrow> Map.empty
                           | v \<Rightarrow> ownProps (getMember v ''customHeaders'')),
                   retryOptions =
                     (if env p ''FIRESTORE_USE_REST_API'' = Some ''true'' then None
                      else retryCodes)\<rparr>)"

text \<open>\<^verbatim>\<open>request\<close>: \<open>response\<close> is the promise of the transport client's method.\<close>

definition request ::
  "platform \<Rightarrow> firestore \<Rightarrow> string \<Rightarrow> nat list option \<Rightarrow> (error, 'r) promise
     \<Rightarrow> (error, 'r) promise call_result \<times> firestore" where
  "request p s methodName retryCodes response =
     (case createCallOptions p s methodName retryCodes of
        Throws e \<Rightarrow> (Throws e, s)
      | Returns opts \<Rightarrow>
          (Returns response, s\<lparr>poolLog := poolLog s @ [UnaryCall methodName opts]\<rparr>))"

subsection \<open>The retry helper\<close>

text \<open>
  \<^verbatim>\<open>_retry\<close>: \<open>func k\<close> is the promise that the \<open>k\<close>-th invocation of \<^verbatim>\<open>func\<close> returns
  (counted from 0). The wait of the backoff (backoff.ts) completes. The result is the
  returned promise together with the number of invocations of \<^verbatim>\<open>func\<close>.
\<close>

function retry_from ::
  "('e \<Rightarrow> bool) \<Rightarrow> (nat \<Rightarrow> ('e, 'a) promise) \<Rightarrow> nat \<Rightarrow> 'e option
     \<Rightarrow> ('e option, 'a) promise \<times> nat" where
  "retry_from permanent func attempt lastError =
     (if attempt < MAX_REQUEST_RETRIES
      then (case func attempt of
              Resolves v \<Rightarrow> (Resolves v, Suc attempt)
            | Unsettled \<Rightarrow> (Unsettled, Suc attempt)
            | Rejects err \<Rightarrow>
                if permanent err then (Rejects (Some err), Suc attempt)
                else retry_from permanent func (Suc attempt) (Some err))
      else (Rejects lastError, attempt))"
  by pat_completeness auto
termination
  by (relation "measure (\<lambda>(permanent, func, attempt, lastError). MAX_REQUEST_RETRIES - attempt)")
     auto

declare retry_from.simps [simp del]

definition retry ::
  "('e \<Rightarrow> bool) \<Rightarrow> (nat \<Rightarrow> ('e, 'a) promise) \<Rightarrow> ('e option, 'a) promise \<times> nat" where
  "retry permanent func = retry_from permanent func 0 None"

subsection \<open>Streams\<close>

text \<open>
  The events of a backend stream that \<^verbatim>\<open>_initializeStream\<close> listens to, and the
  completion of the write of the initial request (with its error, if any). The state
  holds the flag, the promise that the method returns, the lifetime promise and the
  errors forwarded to the result stream, in order. Log output and the data piped into
  the result stream are not represented.
\<close>

datatype event =
    DataEvent
  | ErrorEvent error
  | EndEvent
  | CloseEvent
  | FinishEvent
  | WriteCallback "error option"

record stream_state =
  streamInitialized :: bool
  setupPromise :: "(error, unit) promise"
  lifetimeResolved :: bool
  emitted :: "error list"

definition newStream :: stream_state where
  "newStream = \<lparr>streamInitialized = False, setupPromise = Unsettled,
                lifetimeResolved = False, emitted = []\<rparr>"

text \<open>Settling a promise that is already settled has no effect.\<close>

definition resolve :: "stream_state \<Rightarrow> stream_state" where
  "resolve st = (case setupPromise st of Unsettled \<Rightarrow> st\<lparr>setupPromise := Resolves ()\<rparr> | _ \<Rightarrow> st)"

definition reject :: "error \<Rightarrow> stream_state \<Rightarrow> stream_state" where
  "reject err st = (case setupPromise st of Unsettled \<Rightarrow> st\<lparr>setupPromise := Rejects err\<rparr> | _ \<Rightarrow> st)"

definition streamReady :: "stream_state \<Rightarrow> stream_state" where
  "streamReady st =
     (if \<not> streamInitialized st then resolve (st\<lparr>streamInitialized := True\<rparr>) else st)"

definition streamEnded :: "stream_state \<Rightarrow> stream_state" where
  "streamEnded st = (resolve st)\<lparr>lifetimeResolved := True\<rparr>"

definition streamFailed :: "error \<Rightarrow> stream_state \<Rightarrow> stream_state" where
  "streamFailed err st =
     (if \<not> streamInitialized st then reject err st
      else st\<lparr>emitted := emitted st @ [err]\<rparr>)"

text \<open>One event. The write callback exists only when a request is written, which
  \<^verbatim>\<open>requestStream\<close> does for a bidirectional method.\<close>

fun onEvent :: "bool \<Rightarrow> stream_state \<Rightarrow> event \<Rightarrow> stream_state" where
  "onEvent hasRequest st DataEvent = streamReady st"
| "onEvent hasRequest st (ErrorEvent err) = streamFailed err st"
| "onEvent hasRequest st EndEvent = streamEnded st"
| "onEvent hasRequest st CloseEvent = streamEnded st"
| "onEvent hasRequest st FinishEvent = streamEnded st"
| "onEvent hasRequest st (WriteCallback None) = (if hasRequest then streamReady st else st)"
| "onEvent hasRequest st (WriteCallback (Some err)) =
     (if hasRequest then streamFailed err st else st)"

definition initializeStream :: "bool \<Rightarrow> event list \<Rightarrow> stream_state" where
  "initializeStream hasRequest events = foldl (onEvent hasRequest) newStream events"

text \<open>
  What one invocation of the transport client's streaming method gives: it throws, or
  it returns a stream with the events that stream will have.
\<close>

datatype backend = CreationThrows error | Stream "event list"

text \<open>The function that \<^verbatim>\<open>requestStream\<close> passes to \<^verbatim>\<open>_retry\<close>, at one invocation.\<close>

definition streamAttempt :: "bool \<Rightarrow> backend \<Rightarrow> (error, stream_state) promise" where
  "streamAttempt bidirectional b =
     (case b of
        CreationThrows e \<Rightarrow> Rejects e
      | Stream events \<Rightarrow>
          (let st = initializeStream bidirectional events
           in case setupPromise st of
                Unsettled \<Rightarrow> Unsettled
              | Rejects e \<Rightarrow> Rejects e
              | Resolves u \<Rightarrow> Resolves st))"

text \<open>
  \<^verbatim>\<open>requestStream\<close>: \<open>backends k\<close> is what the \<open>k\<close>-th invocation of the streaming
  method gives. Every invocation goes through the pool with the same call options.
\<close>

definition requestStream ::
  "platform \<Rightarrow> firestore \<Rightarrow> string \<Rightarrow> (nat \<Rightarrow> backend)
     \<Rightarrow> (error option, stream_state) promise call_result \<times> firestore" where
  "requestStream p s methodName backends =
     (case createCallOptions p s methodName None of
        Throws e \<Rightarrow> (Throws e, s)
      | Returns opts \<Rightarrow>
          (let r = retry (\<lambda>err. isPermanentRpcError p err methodName)
                     (\<lambda>k. streamAttempt (methodName = ''listen'') (backends k))
           in (Returns (fst r),
               s\<lparr>poolLog := poolLog s @ replicate (snd r) (StreamCall methodName opts)\<rparr>)))"

subsection \<open>Sequences of calls\<close>

datatype operation =
    CallSettings jsval
  | CallInitializeIfNeeded "(error, string) promise"
  | CallRunTransaction "(error, string) promise" jsval jsval
  | CallRegisterListener
  | CallUnregisterListener
  | CallIncrementBulkWritersCount
  | CallDecrementBulkWritersCount
  | CallTerminate "(error, unit) promise"
  | CallRequest string "nat list option"
  | CallRequestStream string "nat \<Rightarrow> backend"

fun exec :: "platform \<Rightarrow> firestore \<Rightarrow> operation \<Rightarrow> firestore" where
  "exec p s (CallSettings arg) = snd (settings p s arg)"
| "exec p s (CallInitializeIfNeeded detected) = snd (initializeIfNeeded s detected)"
| "exec p s (CallRunTransaction detected f opts) = snd (runTransaction s detected f opts)"
| "exec p s CallRegisterListener = registerListener s"
| "exec p s CallUnregisterListener = unregisterListener s"
| "exec p s CallIncrementBulkWritersCount = incrementBulkWritersCount s"
| "exec p s CallDecrementBulkWritersCount = decrementBulkWritersCount s"
| "exec p s (CallTerminate poolResult) = snd (terminate s poolResult)"
| "exec p s (CallRequest methodName retryCodes) =
     snd (request p s methodName retryCodes (Unsettled :: (error, unit) promise))"
| "exec p s (CallRequestStream methodName backends) = snd (requestStream p s methodName backends)"


subsection \<open>Vocabulary for the statements about streams\<close>

text \<open>
  The events by what they mean for the setup of a stream: a sign of health (data, or the
  completed write of the request), an end of the stream, or a failure.
\<close>

fun healthySignal :: "bool \<Rightarrow> event \<Rightarrow> bool" where
  "healthySignal hasRequest DataEvent = True"
| "healthySignal hasRequest (WriteCallback None) = hasRequest"
| "healthySignal hasRequest _ = False"

fun endSignal :: "event \<Rightarrow> bool" where
  "endSignal EndEvent = True"
| "endSignal CloseEvent = True"
| "endSignal FinishEvent = True"
| "endSignal _ = False"

fun failureOf :: "bool \<Rightarrow> event \<Rightarrow> error option" where
  "failureOf hasRequest (ErrorEvent err) = Some err"
| "failureOf hasRequest (WriteCallback (Some err)) = (if hasRequest then Some err else None)"
| "failureOf hasRequest _ = None"

subsection \<open>A platform for the examples\<close>

text \<open>
  A small instance of the platform, on which the examples are evaluated: hosts of the
  form \<^verbatim>\<open>name\<close> or \<^verbatim>\<open>name:port\<close>, paths split at slashes with empty segments dropped,
  and status 3 (invalid argument) as the only permanent error.
\<close>

definition exampleURL :: "string \<Rightarrow> url" where
  "exampleURL u =
     (let rest = drop 7 u
      in \<lparr>hostname = takeWhile (\<lambda>c. c \<noteq> CHR '':'') rest,
          port = drop 1 (dropWhile (\<lambda>c. c \<noteq> CHR '':'') rest)\<rparr>)"

fun exampleSplit :: "string \<Rightarrow> string \<Rightarrow> string list" where
  "exampleSplit cur [] = (if cur = [] then [] else [cur])"
| "exampleSplit cur (c # cs) =
     (if c = CHR ''/'' then (if cur = [] then exampleSplit [] cs else cur # exampleSplit [] cs)
      else exampleSplit (cur @ [c]) cs)"

fun exampleToString :: "jsval \<Rightarrow> string" where
  "exampleToString (JStr s) = s"
| "exampleToString _ = ''[value]''"

fun examplePermanent :: "error \<Rightarrow> string \<Rightarrow> bool" where
  "examplePermanent (TransportError code) methodName = (code = 3)"
| "examplePermanent _ methodName = True"

definition examplePlatform :: "(string \<Rightarrow> string option) \<Rightarrow> platform" where
  "examplePlatform environment =
     \<lparr>env = environment, libVersion = ''1.0.0'', ToString = exampleToString,
      hostOk = (\<lambda>h. h \<noteq> []), URL = exampleURL,
      validateResourcePath = (\<lambda>path. path \<noteq> []), split = exampleSplit [],
      isPermanentRpcError = examplePermanent\<rparr>"


text \<open>A client that has been initialized with the project ID \<^verbatim>\<open>demo\<close>.\<close>

definition exampleClient :: firestore where
  "exampleClient = snd (initializeIfNeeded fresh (Resolves ''demo''))"


section \<open>Transaction options\<close>

lemma validateInteger_iff:
  "validateInteger False m v \<longleftrightarrow> (\<exists>n::int. m \<le> n \<and> v = JNum (Finite (of_int n)))"
proof (cases v)
  case (JNum x)
  show ?thesis
  proof (cases x)
    case (Finite r)
    have "(isInteger r \<and> of_int m \<le> r) \<longleftrightarrow> (\<exists>n::int. m \<le> n \<and> r = of_int n)"
    proof
      assume a: "isInteger r \<and> of_int m \<le> r"
      then have "of_int \<lfloor>r\<rfloor> = r" unfolding isInteger_def by blast
      then have "r = of_int \<lfloor>r\<rfloor>" by (rule sym)
      moreover from a have "m \<le> \<lfloor>r\<rfloor>" by (simp add: le_floor_iff)
      ultimately show "\<exists>n::int. m \<le> n \<and> r = of_int n" by blast
    next
      assume "\<exists>n::int. m \<le> n \<and> r = of_int n"
      then show "isInteger r \<and> of_int m \<le> r" by (auto simp: isInteger_def)
    qed
    with JNum Finite show ?thesis by simp
  qed (use JNum in simp_all)
qed simp_all

lemma validateInteger_present:
  "\<not> isUndefined v \<Longrightarrow> validateInteger True m v = validateInteger False m v"
proof (cases v)
  case (JNum x)
  then show ?thesis by (cases x) simp_all
qed simp_all

lemma readTransactionOptions_readOnly:
  "getMember opts ''readOnly'' = JBool True \<Longrightarrow> readTransactionOptions opts = Returns args
    \<Longrightarrow> maxAttempts args = JNum (Finite 1) \<and> readOnly args"
  by (cases opts) (auto simp: readTransactionOptions_def split: if_splits)

lemma readTransactionOptions_default:
  "isUndefined (getMember opts ''readOnly'') \<or> isFalse (getMember opts ''readOnly'')
    \<Longrightarrow> isUndefined (getMember opts ''maxAttempts'')
    \<Longrightarrow> readTransactionOptions opts = Returns args
    \<Longrightarrow> maxAttempts args = JNum (Finite 5) \<and> \<not> readOnly args"
  apply (cases "getMember opts ''maxAttempts''"; cases "getMember opts ''readOnly''")
  apply (auto simp: readTransactionOptions_def js_or_def DEFAULT_MAX_TRANSACTION_ATTEMPTS_def
              split: if_splits)
  done

lemma runTransaction_passes:
  "runTransaction s detected f opts = (Returns (Resolves args), s')
    \<Longrightarrow> readTransactionOptions opts = Returns args"
  by (auto simp: runTransaction_def split: if_splits call_result.splits promise.splits prod.splits)

lemma initializeIfNeeded_resolves:
  "fs_projectId s \<noteq> None \<or> (\<exists>pid. detected = Resolves pid)
     \<Longrightarrow> fst (initializeIfNeeded s detected) = Resolves ()"
  by (auto simp: initializeIfNeeded_def Let_def split: option.splits)

lemma runTransaction_resolves:
  assumes "validateFunction f" and "readTransactionOptions opts = Returns args"
      and "fs_projectId s \<noteq> None \<or> (\<exists>pid. detected = Resolves pid)"
  shows "fst (runTransaction s detected f opts) = Returns (Resolves args)"
  using assms(1,2) initializeIfNeeded_resolves [OF assms(3)]
  by (auto simp: runTransaction_def split: prod.splits promise.splits)

lemma readTransactionOptions_readOnly_total:
  "validateObject opts \<Longrightarrow> getMember opts ''readOnly'' = JBool True
     \<Longrightarrow> validateTimestamp True (getMember opts ''readTime'')
     \<Longrightarrow> readTransactionOptions opts
           = Returns \<lparr>maxAttempts = JNum (Finite 1), readOnly = True,
                      readTime = getMember opts ''readTime''\<rparr>"
  by (cases opts) (auto simp: readTransactionOptions_def)

lemma readTransactionOptions_default_total:
  assumes "\<not> truthy opts \<or> validateObject opts
             \<and> (isUndefined (getMember opts ''readOnly'') \<or> isFalse (getMember opts ''readOnly''))
             \<and> isUndefined (getMember opts ''maxAttempts'')"
  shows "readTransactionOptions opts
           = Returns \<lparr>maxAttempts = JNum (Finite 5), readOnly = False, readTime = JUndefined\<rparr>"
proof (cases "truthy opts")
  case False
  then show ?thesis
    by (simp add: readTransactionOptions_def DEFAULT_MAX_TRANSACTION_ATTEMPTS_def)
next
  case True
  with assms have v: "validateObject opts"
    and ro: "isUndefined (getMember opts ''readOnly'') \<or> isFalse (getMember opts ''readOnly'')"
    and ma: "isUndefined (getMember opts ''maxAttempts'')" by simp_all
  from ma have ma': "getMember opts ''maxAttempts'' = JUndefined"
    by (cases "getMember opts ''maxAttempts''") simp_all
  from ro have "validateBoolean True (getMember opts ''readOnly'')
      \<and> \<not> truthy (getMember opts ''readOnly'')"
    by (cases "getMember opts ''readOnly''") auto
  with True v ma' show ?thesis
    by (simp add: readTransactionOptions_def js_or_def DEFAULT_MAX_TRANSACTION_ATTEMPTS_def)
qed

text \<open>
  C1. Whenever \<^verbatim>\<open>runTransaction\<close> reaches the transaction, the maximum attempt count it
  hands over is 1 if the options have \<^verbatim>\<open>readOnly\<close> set to true, and the default of 5
  if \<^verbatim>\<open>readOnly\<close> is absent or false and \<^verbatim>\<open>maxAttempts\<close> is omitted (which includes
  the call without options). And it does reach the transaction, with these counts, when
  the update function is a function, the options pass their checks and the project ID
  is known or detected.
\<close>

theorem runTransaction_maxAttempts:
  "(fst (runTransaction s detected f opts) = Returns (Resolves args)
      \<longrightarrow> (getMember opts ''readOnly'' = JBool True \<longrightarrow> maxAttempts args = JNum (Finite 1))
        \<and> ((isUndefined (getMember opts ''readOnly'') \<or> isFalse (getMember opts ''readOnly''))
             \<and> isUndefined (getMember opts ''maxAttempts'')
           \<longrightarrow> maxAttempts args = DEFAULT_MAX_TRANSACTION_ATTEMPTS
               \<and> DEFAULT_MAX_TRANSACTION_ATTEMPTS = JNum (Finite 5)))
   \<and> (validateFunction f \<and> (fs_projectId s \<noteq> None \<or> (\<exists>pid. detected = Resolves pid))
        \<and> validateObject opts \<and> getMember opts ''readOnly'' = JBool True
        \<and> validateTimestamp True (getMember opts ''readTime'')
      \<longrightarrow> fst (runTransaction s detected f opts)
            = Returns (Resolves \<lparr>maxAttempts = JNum (Finite 1), readOnly = True,
                                 readTime = getMember opts ''readTime''\<rparr>))
   \<and> (validateFunction f \<and> (fs_projectId s \<noteq> None \<or> (\<exists>pid. detected = Resolves pid))
        \<and> (\<not> truthy opts \<or> validateObject opts
             \<and> (isUndefined (getMember opts ''readOnly'') \<or> isFalse (getMember opts ''readOnly''))
             \<and> isUndefined (getMember opts ''maxAttempts''))
      \<longrightarrow> fst (runTransaction s detected f opts)
            = Returns (Resolves \<lparr>maxAttempts = JNum (Finite 5), readOnly = False,
                                 readTime = JUndefined\<rparr>))"
proof -
  have A: "(getMember opts ''readOnly'' = JBool True \<longrightarrow> maxAttempts args = JNum (Finite 1))
        \<and> ((isUndefined (getMember opts ''readOnly'') \<or> isFalse (getMember opts ''readOnly''))
             \<and> isUndefined (getMember opts ''maxAttempts'')
           \<longrightarrow> maxAttempts args = DEFAULT_MAX_TRANSACTION_ATTEMPTS
               \<and> DEFAULT_MAX_TRANSACTION_ATTEMPTS = JNum (Finite 5))"
    if h: "fst (runTransaction s detected f opts) = Returns (Resolves args)"
  proof -
    obtain r s' where "runTransaction s detected f opts = (r, s')"
      by (cases "runTransaction s detected f opts")
    with h have "runTransaction s detected f opts = (Returns (Resolves args), s')" by simp
    then have "readTransactionOptions opts = Returns args" by (rule runTransaction_passes)
    then show ?thesis
      using readTransactionOptions_readOnly [of opts args]
            readTransactionOptions_default [of opts args]
      by (auto simp: DEFAULT_MAX_TRANSACTION_ATTEMPTS_def)
  qed
  have B: "fst (runTransaction s detected f opts)
            = Returns (Resolves \<lparr>maxAttempts = JNum (Finite 1), readOnly = True,
                                 readTime = getMember opts ''readTime''\<rparr>)"
    if "validateFunction f" "fs_projectId s \<noteq> None \<or> (\<exists>pid. detected = Resolves pid)"
       "validateObject opts" "getMember opts ''readOnly'' = JBool True"
       "validateTimestamp True (getMember opts ''readTime'')"
    using that by (intro runTransaction_resolves readTransactionOptions_readOnly_total)
  have C: "fst (runTransaction s detected f opts)
            = Returns (Resolves \<lparr>maxAttempts = JNum (Finite 5), readOnly = False,
                                 readTime = JUndefined\<rparr>)"
    if "validateFunction f" "fs_projectId s \<noteq> None \<or> (\<exists>pid. detected = Resolves pid)"
       "\<not> truthy opts \<or> validateObject opts
             \<and> (isUndefined (getMember opts ''readOnly'') \<or> isFalse (getMember opts ''readOnly''))
             \<and> isUndefined (getMember opts ''maxAttempts'')"
    using that by (intro runTransaction_resolves readTransactionOptions_default_total)
  from A B C show ?thesis by blast
qed


theorem runTransaction_maxAttempts_witness:
  "fst (runTransaction fresh (Resolves ''demo'') (JObj FunctionObject Map.empty)
          (JObj PlainObject [''readOnly'' \<mapsto> JBool True]))
     = Returns (Resolves \<lparr>maxAttempts = JNum (Finite 1), readOnly = True, readTime = JUndefined\<rparr>)
   \<and> fst (runTransaction fresh (Resolves ''demo'') (JObj FunctionObject Map.empty) JUndefined)
     = Returns (Resolves \<lparr>maxAttempts = JNum (Finite 5), readOnly = False, readTime = JUndefined\<rparr>)"
proof -
  let ?f = "JObj FunctionObject Map.empty"
  let ?ro = "JObj PlainObject [''readOnly'' \<mapsto> JBool True]"
  have f: "validateFunction ?f" by simp
  have d: "fs_projectId fresh \<noteq> None \<or> (\<exists>pid. Resolves ''demo'' = (Resolves pid :: (error, string) promise))"
    by simp
  have ro: "validateObject ?ro" "getMember ?ro ''readOnly'' = JBool True"
    "validateTimestamp True (getMember ?ro ''readTime'')" "getMember ?ro ''readTime'' = JUndefined"
    by (simp_all add: getProp_def)
  have none: "\<not> truthy JUndefined" by simp
  from runTransaction_maxAttempts [of fresh "Resolves ''demo''" ?f ?ro] f d ro
  have 1: "fst (runTransaction fresh (Resolves ''demo'') ?f ?ro)
     = Returns (Resolves \<lparr>maxAttempts = JNum (Finite 1), readOnly = True, readTime = JUndefined\<rparr>)"
    by metis
  from runTransaction_maxAttempts [of fresh "Resolves ''demo''" ?f JUndefined] f d none
  have 2: "fst (runTransaction fresh (Resolves ''demo'') ?f JUndefined)
     = Returns (Resolves \<lparr>maxAttempts = JNum (Finite 5), readOnly = False, readTime = JUndefined\<rparr>)"
    by metis
  from 1 2 show ?thesis by (rule conjI)
qed

text \<open>
  C8, as amended. For an options object whose \<^verbatim>\<open>readOnly\<close> field is not true and whose
  \<^verbatim>\<open>maxAttempts\<close> field is present but is not an integer of at least 1, the call throws
  a validation error and the client is left as it was: nothing has been asked of the
  pool.
\<close>

theorem runTransaction_validates_maxAttempts:
  assumes "getMember (JObj k m) ''readOnly'' \<noteq> JBool True"
      and "\<not> isUndefined (getMember (JObj k m) ''maxAttempts'')"
      and "\<forall>n::int. 1 \<le> n \<longrightarrow> getMember (JObj k m) ''maxAttempts'' \<noteq> JNum (Finite (of_int n))"
  shows "\<exists>arg. runTransaction s detected f (JObj k m) = (Throws (InvalidArgument arg), s)"
proof -
  from assms(3) have "\<not> validateInteger False 1 (getMember (JObj k m) ''maxAttempts'')"
    by (auto simp: validateInteger_iff)
  with assms(2) have bad: "\<not> validateInteger True 1 (getMember (JObj k m) ''maxAttempts'')"
    by (simp add: validateInteger_present)
  have "\<exists>arg. readTransactionOptions (JObj k m) = Throws (InvalidArgument arg)"
  proof (cases "getMember (JObj k m) ''readOnly''")
    case (JBool b)
    with assms(1) have "\<not> b" by simp
    with JBool bad show ?thesis by (simp add: readTransactionOptions_def)
  qed (use bad in \<open>simp_all add: readTransactionOptions_def\<close>)
  then show ?thesis by (auto simp: runTransaction_def)
qed

theorem runTransaction_validates_maxAttempts_witness:
  "runTransaction fresh (Resolves ''demo'') (JObj FunctionObject Map.empty)
     (JObj PlainObject [''maxAttempts'' \<mapsto> JNum (Finite 0)])
   = (Throws (InvalidArgument ''transactionOptions.maxAttempts''), fresh)"
  using runTransaction_validates_maxAttempts
          [of PlainObject "[''maxAttempts'' \<mapsto> JNum (Finite 0)]" fresh "Resolves ''demo''"
              "JObj FunctionObject Map.empty"]
  by (simp add: getProp_def runTransaction_def readTransactionOptions_def isInteger_def)

text \<open>
  C8 as stated fails: with \<^verbatim>\<open>readOnly\<close> true the \<^verbatim>\<open>maxAttempts\<close> field is not looked
  at, so the value 0 passes and the transaction is run with one attempt.
\<close>

theorem runTransaction_readOnly_skips_maxAttempts:
  "fst (runTransaction fresh (Resolves ''demo'') (JObj FunctionObject Map.empty)
          (JObj PlainObject [''readOnly'' \<mapsto> JBool True, ''maxAttempts'' \<mapsto> JNum (Finite 0)]))
     = Returns (Resolves \<lparr>maxAttempts = JNum (Finite 1), readOnly = True, readTime = JUndefined\<rparr>)
   \<and> getMember (JObj PlainObject [''readOnly'' \<mapsto> JBool True, ''maxAttempts'' \<mapsto> JNum (Finite 0)])
        ''maxAttempts'' = JNum (Finite 0)
   \<and> \<not> validateInteger False 1 (JNum (Finite 0))"
  by (simp add: runTransaction_def readTransactionOptions_def initializeIfNeeded_def fresh_def
        getProp_def withOwnerHeader_def isInteger_def)


section \<open>The retry helper\<close>

lemma retry_from_spec:
  "a \<le> MAX_REQUEST_RETRIES \<Longrightarrow> retry_from P f a lastErr = (r, n) \<Longrightarrow>
     a \<le> n \<and> n \<le> MAX_REQUEST_RETRIES
     \<and> (\<forall>k. a \<le> k \<and> Suc k < n \<longrightarrow> (\<exists>e. f k = Rejects e \<and> \<not> P e))
     \<and> (a < MAX_REQUEST_RETRIES \<longrightarrow> a < n \<and>
          (case f (n - 1) of
             Resolves v \<Rightarrow> r = Resolves v
           | Unsettled \<Rightarrow> r = Unsettled
           | Rejects e \<Rightarrow> r = Rejects (Some e) \<and> (P e \<or> n = MAX_REQUEST_RETRIES)))
     \<and> (a = MAX_REQUEST_RETRIES \<longrightarrow> n = a \<and> r = Rejects lastErr)"
proof (induction P f a lastErr arbitrary: r n rule: retry_from.induct)
  case (1 permanent func attempt lastError)
  note eq = retry_from.simps [of permanent func attempt lastError]
  show ?case
  proof (cases "attempt < MAX_REQUEST_RETRIES")
    case False
    then have "retry_from permanent func attempt lastError = (Rejects lastError, attempt)"
      by (subst eq) simp
    with "1.prems" have "r = Rejects lastError" "n = attempt" by simp_all
    with False "1.prems"(1) show ?thesis by auto
  next
    case lt: True
    show ?thesis
    proof (cases "func attempt")
      case Unsettled
      with lt have "retry_from permanent func attempt lastError = (Unsettled, Suc attempt)"
        by (subst eq) simp
      with "1.prems" have "r = Unsettled" "n = Suc attempt" by simp_all
      with lt Unsettled show ?thesis by auto
    next
      case (Resolves v)
      with lt have "retry_from permanent func attempt lastError = (Resolves v, Suc attempt)"
        by (subst eq) simp
      with "1.prems" have "r = Resolves v" "n = Suc attempt" by simp_all
      with lt Resolves show ?thesis by auto
    next
      case (Rejects err)
      show ?thesis
      proof (cases "permanent err")
        case True
        with lt Rejects
        have "retry_from permanent func attempt lastError = (Rejects (Some err), Suc attempt)"
          by (subst eq) simp
        with "1.prems" have "r = Rejects (Some err)" "n = Suc attempt" by simp_all
        with lt Rejects True show ?thesis by auto
      next
        case False
        with Rejects lt
        have "retry_from permanent func attempt lastError
                = retry_from permanent func (Suc attempt) (Some err)"
          by (subst eq) simp
        with "1.prems"
        have rec: "retry_from permanent func (Suc attempt) (Some err) = (r, n)" by simp
        from lt have le: "Suc attempt \<le> MAX_REQUEST_RETRIES" by simp
        note IH = "1.IH" [OF lt Rejects False le rec]
        from IH have bounds: "Suc attempt \<le> n" "n \<le> MAX_REQUEST_RETRIES" by simp_all
        have mid: "\<forall>k. attempt \<le> k \<and> Suc k < n \<longrightarrow> (\<exists>e. func k = Rejects e \<and> \<not> permanent e)"
        proof (intro allI impI)
          fix k assume k: "attempt \<le> k \<and> Suc k < n"
          show "\<exists>e. func k = Rejects e \<and> \<not> permanent e"
          proof (cases "k = attempt")
            case True with Rejects False show ?thesis by simp
          next
            case False
            with k have "Suc attempt \<le> k \<and> Suc k < n" by simp
            with IH show ?thesis by blast
          qed
        qed
        have lastc: "case func (n - 1) of
             Resolves v \<Rightarrow> r = Resolves v
           | Unsettled \<Rightarrow> r = Unsettled
           | Rejects e \<Rightarrow> r = Rejects (Some e) \<and> (permanent e \<or> n = MAX_REQUEST_RETRIES)"
        proof (cases "Suc attempt = MAX_REQUEST_RETRIES")
          case True
          with IH have n: "n = Suc attempt" and r: "r = Rejects (Some err)" by simp_all
          from n have "func (n - 1) = Rejects err" using Rejects by simp
          with r n True show ?thesis by simp
        next
          case False
          with le have "Suc attempt < MAX_REQUEST_RETRIES" by simp
          with IH show ?thesis by blast
        qed
        from bounds mid lastc lt show ?thesis by auto
      qed
    qed
  qed
qed


text \<open>
  C3. The retry helper invokes its function at most 5 times; every invocation but the
  last failed with an error that is not permanent; an invocation that fails with a
  permanent error is the last one; and when the last invocation failed, which is the case
  when a permanent error occurred or when all five attempts failed, the returned promise
  rejects with the error of that last invocation.
\<close>

theorem retry_attempts:
  assumes "retry permanent func = (r, n)"
  shows "1 \<le> n \<and> n \<le> MAX_REQUEST_RETRIES \<and> MAX_REQUEST_RETRIES = 5
       \<and> (\<forall>k. Suc k < n \<longrightarrow> (\<exists>e. func k = Rejects e \<and> \<not> permanent e))
       \<and> (\<forall>k e. k < n \<and> func k = Rejects e \<and> permanent e
              \<longrightarrow> n = Suc k \<and> r = Rejects (Some e))
       \<and> (\<forall>e. func (n - 1) = Rejects e
              \<longrightarrow> r = Rejects (Some e) \<and> (permanent e \<or> n = MAX_REQUEST_RETRIES))
       \<and> ((\<forall>k < MAX_REQUEST_RETRIES. \<exists>e. func k = Rejects e)
              \<longrightarrow> (\<exists>e. func (n - 1) = Rejects e \<and> r = Rejects (Some e)))"
proof -
  from assms have rf: "retry_from permanent func 0 None = (r, n)" by (simp add: retry_def)
  have pos: "0 < MAX_REQUEST_RETRIES" by (simp add: MAX_REQUEST_RETRIES_def)
  note spec = retry_from_spec [OF _ rf]
  from spec pos have bounds: "1 \<le> n" "n \<le> MAX_REQUEST_RETRIES" by auto
  from spec have mid: "\<forall>k. Suc k < n \<longrightarrow> (\<exists>e. func k = Rejects e \<and> \<not> permanent e)" by blast
  from spec pos have lastc: "case func (n - 1) of
             Resolves v \<Rightarrow> r = Resolves v
           | Unsettled \<Rightarrow> r = Unsettled
           | Rejects e \<Rightarrow> r = Rejects (Some e) \<and> (permanent e \<or> n = MAX_REQUEST_RETRIES)"
    by simp
  then have fin: "\<forall>e. func (n - 1) = Rejects e
              \<longrightarrow> r = Rejects (Some e) \<and> (permanent e \<or> n = MAX_REQUEST_RETRIES)"
    by (auto split: promise.splits)
  have perm: "\<forall>k e. k < n \<and> func k = Rejects e \<and> permanent e \<longrightarrow> n = Suc k \<and> r = Rejects (Some e)"
  proof (intro allI impI)
    fix k e assume a: "k < n \<and> func k = Rejects e \<and> permanent e"
    have "\<not> Suc k < n"
    proof
      assume "Suc k < n"
      with mid obtain e' where "func k = Rejects e'" "\<not> permanent e'" by blast
      with a show False by simp
    qed
    with a have n: "n = Suc k" by simp
    with a fin show "n = Suc k \<and> r = Rejects (Some e)" by simp
  qed
  have exh: "(\<forall>k < MAX_REQUEST_RETRIES. \<exists>e. func k = Rejects e)
              \<longrightarrow> (\<exists>e. func (n - 1) = Rejects e \<and> r = Rejects (Some e))"
  proof
    assume all: "\<forall>k < MAX_REQUEST_RETRIES. \<exists>e. func k = Rejects e"
    from bounds have "n - 1 < MAX_REQUEST_RETRIES" by simp
    with all obtain e where "func (n - 1) = Rejects e" by blast
    with fin show "\<exists>e. func (n - 1) = Rejects e \<and> r = Rejects (Some e)" by blast
  qed
  have five: "MAX_REQUEST_RETRIES = 5" by (simp add: MAX_REQUEST_RETRIES_def)
  from bounds five mid perm fin exh show ?thesis by blast
qed

theorem retry_attempts_witness:
  "retry (\<lambda>e. examplePermanent e ''commit'')
      (\<lambda>k. if k = 0 then Rejects (TransportError 14) else
            if k = 1 then Rejects (TransportError 3) else (Resolves ()))
     = (Rejects (Some (TransportError 3)), 2)
   \<and> (2::nat) \<le> MAX_REQUEST_RETRIES"
proof -
  have h: "retry (\<lambda>e. examplePermanent e ''commit'')
      (\<lambda>k. if k = 0 then Rejects (TransportError 14) else
            if k = 1 then Rejects (TransportError 3) else (Resolves ()))
     = (Rejects (Some (TransportError 3)), 2)"
    by (simp add: retry_def retry_from.simps MAX_REQUEST_RETRIES_def)
  from retry_attempts [OF h] h show ?thesis by simp
qed

theorem retry_exhausted_example:
  "retry (\<lambda>e. examplePermanent e ''commit'') (\<lambda>k. Rejects (TransportError (10 + k)))
     = (Rejects (Some (TransportError 14)), 5)"
  by (simp add: retry_def retry_from.simps MAX_REQUEST_RETRIES_def)


section \<open>Stream setup\<close>

lemma initializeStream_snoc:
  "initializeStream h (evs @ [ev]) = onEvent h (initializeStream h evs) ev"
  by (simp add: initializeStream_def)

lemma onEvent_settled:
  "setupPromise st \<noteq> Unsettled \<Longrightarrow> setupPromise (onEvent h st ev) = setupPromise st"
  by (cases "(h, st, ev)" rule: onEvent.cases)
     (auto simp: streamReady_def streamEnded_def streamFailed_def resolve_def reject_def
           split: promise.splits)

lemma foldl_onEvent_settled:
  "setupPromise st \<noteq> Unsettled \<Longrightarrow> setupPromise (foldl (onEvent h) st evs) = setupPromise st"
  by (induction evs arbitrary: st) (simp_all add: onEvent_settled)

lemma onEvent_resolves:
  "setupPromise (onEvent h st ev) = Resolves u \<Longrightarrow> setupPromise st = Unsettled
     \<Longrightarrow> healthySignal h ev \<or> endSignal ev"
  by (cases "(h, st, ev)" rule: onEvent.cases)
     (auto simp: streamReady_def streamEnded_def streamFailed_def resolve_def reject_def
           split: promise.splits if_splits)

lemma onEvent_quiet:
  "\<not> healthySignal h ev \<Longrightarrow> \<not> endSignal ev \<Longrightarrow> failureOf h ev = None \<Longrightarrow> onEvent h st ev = st"
  by (cases "(h, st, ev)" rule: onEvent.cases) (auto split: if_splits)

lemma foldl_onEvent_quiet:
  "\<forall>ev \<in> set evs. \<not> healthySignal h ev \<and> \<not> endSignal ev \<and> failureOf h ev = None
     \<Longrightarrow> foldl (onEvent h) st evs = st"
  by (induction evs arbitrary: st) (simp_all add: onEvent_quiet)

lemma onEvent_first_failure:
  "failureOf h ev = Some e \<Longrightarrow> onEvent h newStream ev = newStream\<lparr>setupPromise := Rejects e\<rparr>"
  by (cases "(h, newStream, ev)" rule: onEvent.cases)
     (auto simp: streamFailed_def reject_def newStream_def split: if_splits)

lemma resolved_needs_signal:
  "setupPromise (initializeStream h evs) = Resolves u
     \<Longrightarrow> \<exists>ev \<in> set evs. healthySignal h ev \<or> endSignal ev"
proof (induction evs rule: rev_induct)
  case Nil
  then show ?case by (simp add: initializeStream_def newStream_def)
next
  case (snoc ev evs)
  show ?case
  proof (cases "setupPromise (initializeStream h evs)")
    case Unsettled
    with snoc.prems have "healthySignal h ev \<or> endSignal ev"
      by (auto simp: initializeStream_snoc dest: onEvent_resolves)
    then show ?thesis by auto
  next
    case (Resolves v)
    with snoc.IH show ?thesis by auto
  next
    case (Rejects e)
    then have "setupPromise (onEvent h (initializeStream h evs) ev) = Rejects e"
      by (simp add: onEvent_settled)
    with snoc.prems show ?thesis by (simp add: initializeStream_snoc)
  qed
qed

lemma signal_resolves:
  assumes quiet: "\<forall>x \<in> set pre. \<not> healthySignal h x \<and> \<not> endSignal x \<and> failureOf h x = None"
      and sig: "healthySignal h ev \<or> endSignal ev"
  shows "setupPromise (initializeStream h (pre @ ev # post)) = Resolves ()"
proof -
  have "initializeStream h (pre @ ev # post) = foldl (onEvent h) (onEvent h newStream ev) post"
    using quiet by (simp add: initializeStream_def foldl_onEvent_quiet)
  moreover from sig have "setupPromise (onEvent h newStream ev) = Resolves ()"
    by (cases "(h, newStream, ev)" rule: onEvent.cases)
       (auto simp: streamReady_def streamEnded_def resolve_def newStream_def)
  ultimately show ?thesis by (simp add: foldl_onEvent_settled)
qed

lemma failure_rejects:
  assumes quiet: "\<forall>x \<in> set pre. \<not> healthySignal h x \<and> \<not> endSignal x \<and> failureOf h x = None"
      and fail: "failureOf h ev = Some e"
  shows "setupPromise (initializeStream h (pre @ ev # post)) = Rejects e"
proof -
  have "initializeStream h (pre @ ev # post) = foldl (onEvent h) (onEvent h newStream ev) post"
    using quiet by (simp add: initializeStream_def foldl_onEvent_quiet)
  with fail show ?thesis by (simp add: onEvent_first_failure foldl_onEvent_settled)
qed

text \<open>
  C4, as amended. The setup promise resolves only after a data event, the completed
  write of the request of a bidirectional stream, or an end of the stream (\<^verbatim>\<open>end\<close>,
  \<^verbatim>\<open>close\<close> or \<^verbatim>\<open>finish\<close>) was observed; if a failure comes before any of these, the
  setup promise rejects with that failure; if one of these comes first, it resolves.
\<close>

theorem setup_resolves_after_signal:
  "(setupPromise (initializeStream hasRequest events) = Resolves ()
      \<longrightarrow> (\<exists>ev \<in> set events. healthySignal hasRequest ev \<or> endSignal ev))
   \<and> ((\<forall>x \<in> set pre. \<not> healthySignal hasRequest x \<and> \<not> endSignal x \<and> failureOf hasRequest x = None)
        \<and> failureOf hasRequest ev = Some e
      \<longrightarrow> setupPromise (initializeStream hasRequest (pre @ ev # post)) = Rejects e)
   \<and> ((\<forall>x \<in> set pre. \<not> healthySignal hasRequest x \<and> \<not> endSignal x \<and> failureOf hasRequest x = None)
        \<and> (healthySignal hasRequest ev \<or> endSignal ev)
      \<longrightarrow> setupPromise (initializeStream hasRequest (pre @ ev # post)) = Resolves ())"
  using resolved_needs_signal [of hasRequest events "()"]
        failure_rejects [of pre hasRequest ev e post] signal_resolves [of pre hasRequest ev post]
  by blast

theorem setup_resolves_after_signal_witness:
  "setupPromise (initializeStream True [WriteCallback None, ErrorEvent (TransportError 14)])
     = Resolves ()
   \<and> healthySignal True (WriteCallback None)
   \<and> setupPromise (initializeStream False [ErrorEvent (TransportError 14), DataEvent])
     = Rejects (TransportError 14)"
  using setup_resolves_after_signal
          [of True "[WriteCallback None, ErrorEvent (TransportError 14)]" "[]"
              "ErrorEvent (TransportError 14)" "TransportError 14" "[DataEvent]"]
        setup_resolves_after_signal
          [of False "[]" "[]" "ErrorEvent (TransportError 14)" "TransportError 14" "[DataEvent]"]
  by (simp add: initializeStream_def newStream_def streamReady_def streamFailed_def resolve_def
        reject_def)

text \<open>
  C4 as stated fails: a stream that ends without data resolves the setup promise,
  although no data was observed and no request was flushed.
\<close>

theorem setup_resolves_on_end_without_data:
  "setupPromise (initializeStream False [EndEvent]) = Resolves ()
   \<and> \<not> healthySignal False EndEvent
   \<and> streamInitialized (initializeStream False [EndEvent]) = False"
  by (simp add: initializeStream_def newStream_def streamEnded_def resolve_def)


section \<open>Streaming requests\<close>

lemma retry_spec:
  assumes "retry permanent func = (r, n)"
  shows "1 \<le> n" "n \<le> MAX_REQUEST_RETRIES"
    "\<forall>k. Suc k < n \<longrightarrow> (\<exists>e. func k = Rejects e \<and> \<not> permanent e)"
    "case func (n - 1) of
             Resolves v \<Rightarrow> r = Resolves v
           | Unsettled \<Rightarrow> r = Unsettled
           | Rejects e \<Rightarrow> r = Rejects (Some e) \<and> (permanent e \<or> n = MAX_REQUEST_RETRIES)"
proof -
  from assms have rf: "retry_from permanent func 0 None = (r, n)" by (simp add: retry_def)
  have pos: "0 < MAX_REQUEST_RETRIES" by (simp add: MAX_REQUEST_RETRIES_def)
  note spec = retry_from_spec [OF _ rf]
  from spec pos show "1 \<le> n" "n \<le> MAX_REQUEST_RETRIES" by auto
  from spec show "\<forall>k. Suc k < n \<longrightarrow> (\<exists>e. func k = Rejects e \<and> \<not> permanent e)" by blast
  from spec pos show "case func (n - 1) of
             Resolves v \<Rightarrow> r = Resolves v
           | Unsettled \<Rightarrow> r = Unsettled
           | Rejects e \<Rightarrow> r = Rejects (Some e) \<and> (permanent e \<or> n = MAX_REQUEST_RETRIES)"
    by simp
qed

lemma retry_last_attempt:
  assumes "retry permanent func = (r, n)" and "k < n"
      and "\<forall>e. func k = Rejects e \<longrightarrow> permanent e \<or> Suc k = MAX_REQUEST_RETRIES"
  shows "n = Suc k"
proof (rule ccontr)
  assume "n \<noteq> Suc k"
  with assms(2) have lt: "Suc k < n" by simp
  with retry_spec(3) [OF assms(1)] obtain e where e: "func k = Rejects e" "\<not> permanent e" by blast
  with assms(3) have "Suc k = MAX_REQUEST_RETRIES" by blast
  with lt retry_spec(2) [OF assms(1)] show False by simp
qed

lemma retry_continues:
  assumes "retry permanent func = (r, n)" and "k < n"
      and "func k = Rejects e" "\<not> permanent e" "Suc k < MAX_REQUEST_RETRIES"
  shows "Suc k < n"
proof (rule ccontr)
  assume "\<not> Suc k < n"
  with assms(2) have n: "n = Suc k" by simp
  with retry_spec(4) [OF assms(1)] assms(3) have "permanent e \<or> n = MAX_REQUEST_RETRIES" by simp
  with assms(4,5) n show False by simp
qed

lemma onEvent_initialized_mono:
  "streamInitialized st \<Longrightarrow> streamInitialized (onEvent h st ev)"
  by (cases "(h, st, ev)" rule: onEvent.cases)
     (auto simp: streamReady_def streamEnded_def streamFailed_def resolve_def reject_def
           split: promise.splits)

lemma onEvent_emitted_mono:
  "x \<in> set (emitted st) \<Longrightarrow> x \<in> set (emitted (onEvent h st ev))"
  by (cases "(h, st, ev)" rule: onEvent.cases)
     (auto simp: streamReady_def streamEnded_def streamFailed_def resolve_def reject_def
           split: promise.splits)

lemma foldl_onEvent_initialized_mono:
  "streamInitialized st \<Longrightarrow> streamInitialized (foldl (onEvent h) st evs)"
  by (induction evs arbitrary: st) (simp_all add: onEvent_initialized_mono)

lemma foldl_onEvent_emitted_mono:
  "x \<in> set (emitted st) \<Longrightarrow> x \<in> set (emitted (foldl (onEvent h) st evs))"
  by (induction evs arbitrary: st) (simp_all add: onEvent_emitted_mono)

lemma onEvent_not_rejected:
  "failureOf h ev = None \<Longrightarrow> \<forall>e. setupPromise st \<noteq> Rejects e
     \<Longrightarrow> \<forall>e. setupPromise (onEvent h st ev) \<noteq> Rejects e"
  by (cases "(h, st, ev)" rule: onEvent.cases)
     (auto simp: streamReady_def streamEnded_def streamFailed_def resolve_def reject_def
           split: promise.splits if_splits)

lemma foldl_onEvent_not_rejected:
  "\<forall>x \<in> set evs. failureOf h x = None \<Longrightarrow> \<forall>e. setupPromise st \<noteq> Rejects e
     \<Longrightarrow> \<forall>e. setupPromise (foldl (onEvent h) st evs) \<noteq> Rejects e"
proof (induction evs arbitrary: st)
  case Nil
  then show ?case by simp
next
  case (Cons ev evs)
  from Cons.prems have "\<forall>e. setupPromise (onEvent h st ev) \<noteq> Rejects e"
    by (simp add: onEvent_not_rejected)
  with Cons.prems Cons.IH [of "onEvent h st ev"] show ?case by simp
qed

lemma data_event_resolves:
  "\<forall>e. setupPromise st \<noteq> Rejects e \<Longrightarrow> streamInitialized st \<longrightarrow> setupPromise st \<noteq> Unsettled
     \<Longrightarrow> streamInitialized (onEvent h st DataEvent)
         \<and> setupPromise (onEvent h st DataEvent) = Resolves ()"
  by (cases "setupPromise st") (auto simp: streamReady_def resolve_def)

lemma onEvent_initialized_settled:
  "streamInitialized st \<longrightarrow> setupPromise st \<noteq> Unsettled
     \<Longrightarrow> streamInitialized (onEvent h st ev) \<longrightarrow> setupPromise (onEvent h st ev) \<noteq> Unsettled"
  by (cases "(h, st, ev)" rule: onEvent.cases)
     (auto simp: streamReady_def streamEnded_def streamFailed_def resolve_def reject_def
           split: promise.splits if_splits)

lemma foldl_onEvent_initialized_settled:
  "streamInitialized st \<longrightarrow> setupPromise st \<noteq> Unsettled
     \<Longrightarrow> streamInitialized (foldl (onEvent h) st evs)
           \<longrightarrow> setupPromise (foldl (onEvent h) st evs) \<noteq> Unsettled"
proof (induction evs arbitrary: st)
  case Nil
  then show ?case by simp
next
  case (Cons ev evs)
  from Cons.prems Cons.IH [of "onEvent h st ev"] show ?case
    by (simp add: onEvent_initialized_settled)
qed

lemma failure_after_data:
  assumes "\<forall>x \<in> set pre. failureOf h x = None"
  shows "setupPromise (initializeStream h (pre @ DataEvent # mid @ ErrorEvent e # post)) = Resolves ()
       \<and> e \<in> set (emitted (initializeStream h (pre @ DataEvent # mid @ ErrorEvent e # post)))"
proof -
  define s0 where "s0 = foldl (onEvent h) newStream pre"
  define s1 where "s1 = onEvent h s0 DataEvent"
  define s2 where "s2 = foldl (onEvent h) s1 mid"
  define s3 where "s3 = onEvent h s2 (ErrorEvent e)"
  have final: "initializeStream h (pre @ DataEvent # mid @ ErrorEvent e # post)
                 = foldl (onEvent h) s3 post"
    by (simp add: initializeStream_def s0_def s1_def s2_def s3_def)
  have "\<forall>e. setupPromise s0 \<noteq> Rejects e"
    unfolding s0_def using assms by (rule foldl_onEvent_not_rejected) (simp add: newStream_def)
  moreover have "streamInitialized s0 \<longrightarrow> setupPromise s0 \<noteq> Unsettled"
    unfolding s0_def by (rule foldl_onEvent_initialized_settled) (simp add: newStream_def)
  ultimately have s1: "streamInitialized s1" "setupPromise s1 = Resolves ()"
    unfolding s1_def using data_event_resolves [of s0 h] by simp_all
  then have s2: "streamInitialized s2" "setupPromise s2 = Resolves ()"
    unfolding s2_def by (simp_all add: foldl_onEvent_initialized_mono foldl_onEvent_settled)
  then have s3: "setupPromise s3 = Resolves ()" "e \<in> set (emitted s3)"
    unfolding s3_def by (simp_all add: onEvent_settled streamFailed_def)
  with final show ?thesis by (simp add: foldl_onEvent_settled foldl_onEvent_emitted_mono)
qed

lemma requestStream_returns:
  assumes "requestStream p s m backends = (Returns r, s')"
  shows "retry (\<lambda>err. isPermanentRpcError p err m) (\<lambda>k. streamAttempt (m = ''listen'') (backends k))
           = (r, length (poolLog s') - length (poolLog s))"
  using assms
  by (auto simp: requestStream_def Let_def split: call_result.splits intro: prod_eqI)

text \<open>
  C2, as amended. Take an invocation of the streaming method that \<^verbatim>\<open>requestStream\<close>
  makes. If its stream fails before any data event, before the write of the request
  completes and before any \<^verbatim>\<open>end\<close>, \<^verbatim>\<open>close\<close> or \<^verbatim>\<open>finish\<close> event, the setup promise
  rejects with that failure and the retry policy decides: an error that is not permanent
  with attempts left leads to a further invocation, a permanent error or the fifth
  attempt ends the request with that error. If the stream fails after data has been
  received, the invocation is the last one and the error is emitted on the stream that
  the caller receives.
\<close>

theorem stream_failure_handling:
  assumes "requestStream p s m backends = (Returns r, s')"
      and "k < length (poolLog s') - length (poolLog s)"
  shows "((\<forall>x \<in> set pre. \<not> healthySignal (m = ''listen'') x \<and> \<not> endSignal x
                            \<and> failureOf (m = ''listen'') x = None)
           \<and> failureOf (m = ''listen'') ev = Some e \<and> backends k = Stream (pre @ ev # post)
          \<longrightarrow> setupPromise (initializeStream (m = ''listen'') (pre @ ev # post)) = Rejects e
              \<and> (\<not> isPermanentRpcError p e m \<and> Suc k < MAX_REQUEST_RETRIES
                    \<longrightarrow> Suc k < length (poolLog s') - length (poolLog s))
              \<and> (isPermanentRpcError p e m \<or> Suc k = MAX_REQUEST_RETRIES
                    \<longrightarrow> length (poolLog s') - length (poolLog s) = Suc k
                        \<and> r = Rejects (Some e)))
       \<and> ((\<forall>x \<in> set pre. failureOf (m = ''listen'') x = None)
           \<and> backends k = Stream (pre @ DataEvent # mid @ ErrorEvent e # post)
          \<longrightarrow> length (poolLog s') - length (poolLog s) = Suc k
              \<and> (\<exists>st. r = Resolves st \<and> e \<in> set (emitted st)))"
proof -
  let ?h = "m = ''listen''"
  let ?n = "length (poolLog s') - length (poolLog s)"
  let ?P = "\<lambda>err. isPermanentRpcError p err m"
  let ?f = "\<lambda>k. streamAttempt ?h (backends k)"
  note rt = requestStream_returns [OF assms(1)]
  have A: "setupPromise (initializeStream ?h (pre @ ev # post)) = Rejects e
              \<and> (\<not> ?P e \<and> Suc k < MAX_REQUEST_RETRIES \<longrightarrow> Suc k < ?n)
              \<and> (?P e \<or> Suc k = MAX_REQUEST_RETRIES \<longrightarrow> ?n = Suc k \<and> r = Rejects (Some e))"
    if quiet: "\<forall>x \<in> set pre. \<not> healthySignal ?h x \<and> \<not> endSignal x \<and> failureOf ?h x = None"
      and fail: "failureOf ?h ev = Some e" and b: "backends k = Stream (pre @ ev # post)"
  proof -
    from quiet fail have rej: "setupPromise (initializeStream ?h (pre @ ev # post)) = Rejects e"
      by (rule failure_rejects)
    with b have fk: "?f k = Rejects e" by (simp add: streamAttempt_def)
    have cont: "\<not> ?P e \<and> Suc k < MAX_REQUEST_RETRIES \<longrightarrow> Suc k < ?n"
      using retry_continues [OF rt assms(2) fk] by blast
    have stop: "?P e \<or> Suc k = MAX_REQUEST_RETRIES \<longrightarrow> ?n = Suc k \<and> r = Rejects (Some e)"
    proof
      assume c: "?P e \<or> Suc k = MAX_REQUEST_RETRIES"
      with fk have "\<forall>e'. ?f k = Rejects e' \<longrightarrow> ?P e' \<or> Suc k = MAX_REQUEST_RETRIES" by simp
      from retry_last_attempt [OF rt assms(2) this] have n: "?n = Suc k" .
      with retry_spec(4) [OF rt] fk show "?n = Suc k \<and> r = Rejects (Some e)" by simp
    qed
    from rej cont stop show ?thesis by blast
  qed
  have B: "?n = Suc k \<and> (\<exists>st. r = Resolves st \<and> e \<in> set (emitted st))"
    if nofail: "\<forall>x \<in> set pre. failureOf ?h x = None"
      and b: "backends k = Stream (pre @ DataEvent # mid @ ErrorEvent e # post)"
  proof -
    let ?st = "initializeStream ?h (pre @ DataEvent # mid @ ErrorEvent e # post)"
    from failure_after_data [OF nofail, of mid e post]
    have res: "setupPromise ?st = Resolves ()" and em: "e \<in> set (emitted ?st)" by simp_all
    with b have fk: "?f k = Resolves ?st" by (simp add: streamAttempt_def)
    then have "\<forall>e'. ?f k = Rejects e' \<longrightarrow> ?P e' \<or> Suc k = MAX_REQUEST_RETRIES" by simp
    from retry_last_attempt [OF rt assms(2) this] have n: "?n = Suc k" .
    with retry_spec(4) [OF rt] fk have "r = Resolves ?st" by simp
    with n em show ?thesis by blast
  qed
  from A B show ?thesis by blast
qed

lemmas example_simps =
  requestStream_def createCallOptions_def formattedName_def projectId_def exampleClient_def
  initializeIfNeeded_def fresh_def retry_def retry_from.simps streamAttempt_def
  initializeStream_def newStream_def streamReady_def streamEnded_def streamFailed_def
  resolve_def reject_def examplePlatform_def MAX_REQUEST_RETRIES_def withOwnerHeader_def
  getProp_def

theorem stream_failure_handling_witness:
  "fst (requestStream (examplePlatform Map.empty) exampleClient ''runQuery''
          (\<lambda>k. if k = 0 then Stream [ErrorEvent (TransportError 14)]
                else Stream [DataEvent, ErrorEvent (TransportError 14)]))
     = Returns (Resolves \<lparr>streamInitialized = True, setupPromise = Resolves (),
                          lifetimeResolved = False, emitted = [TransportError 14]\<rparr>)
   \<and> Suc 0 < length (poolLog (snd (requestStream (examplePlatform Map.empty) exampleClient ''runQuery''
          (\<lambda>k. if k = 0 then Stream [ErrorEvent (TransportError 14)]
                else Stream [DataEvent, ErrorEvent (TransportError 14)]))))
               - length (poolLog exampleClient)"
proof -
  let ?B = "\<lambda>k::nat. if k = 0 then Stream [ErrorEvent (TransportError 14)]
                else Stream [DataEvent, ErrorEvent (TransportError 14)]"
  let ?R = "Resolves \<lparr>streamInitialized = True, setupPromise = Resolves (),
                          lifetimeResolved = False, emitted = [TransportError 14]\<rparr>"
  let ?run = "requestStream (examplePlatform Map.empty) exampleClient ''runQuery'' ?B"
  have f: "fst ?run = Returns ?R"
    by (simp add: example_simps)
  have n: "length (poolLog (snd ?run)) - length (poolLog exampleClient) = 2"
    by (simp add: example_simps)
  from f have h: "?run = (Returns ?R, snd ?run)" by (metis prod.collapse)
  have k: "0 < length (poolLog (snd ?run)) - length (poolLog exampleClient)" using n by simp
  from stream_failure_handling [OF h k, of "[]" "ErrorEvent (TransportError 14)" "TransportError 14" "[]" "[]"]
  have "Suc 0 < length (poolLog (snd ?run)) - length (poolLog exampleClient)"
    by (simp add: examplePlatform_def MAX_REQUEST_RETRIES_def)
  with f show ?thesis by simp
qed

text \<open>
  C2 as stated fails: a stream that finishes and then fails, before any data and with no
  request written, has its setup promise resolved, and the request is not retried.
\<close>

theorem failure_after_finish_is_dropped:
  "fst (requestStream (examplePlatform Map.empty) exampleClient ''runQuery''
          (\<lambda>k. Stream [FinishEvent, ErrorEvent (TransportError 14)]))
     = Returns (Resolves \<lparr>streamInitialized = False, setupPromise = Resolves (),
                          lifetimeResolved = True, emitted = []\<rparr>)
   \<and> length (poolLog (snd (requestStream (examplePlatform Map.empty) exampleClient ''runQuery''
          (\<lambda>k. Stream [FinishEvent, ErrorEvent (TransportError 14)]))))
       - length (poolLog exampleClient) = 1
   \<and> \<not> isPermanentRpcError (examplePlatform Map.empty) (TransportError 14) ''runQuery''"
  by (simp add: example_simps)


section \<open>Paths and termination\<close>

text \<open>
  C7. \<^verbatim>\<open>doc\<close> throws exactly when the path is invalid or its segment count is not
  even, \<^verbatim>\<open>collection\<close> throws exactly when the path is invalid or its segment count
  is not odd; on success each returns a reference whose path holds the segments of the
  given string. The validity check and the splitting are those of the platform; the
  parity tests are the ones modelled above.
\<close>

theorem doc_collection_throw_iff:
  "((\<exists>e. doc p path = Throws e)
       \<longleftrightarrow> (\<not> validateResourcePath p path \<or> odd (length (split p path))))
   \<and> (\<forall>r. doc p path = Returns r \<longrightarrow> r = DocumentReference (ResourcePath (split p path)))
   \<and> ((\<exists>e. collection p path = Throws e)
       \<longleftrightarrow> (\<not> validateResourcePath p path \<or> even (length (split p path))))
   \<and> (\<forall>r. collection p path = Returns r \<longrightarrow> r = CollectionReference (ResourcePath (split p path)))"
  by (auto simp: doc_def collection_def append_path_def EMPTY_def isDocument_def isCollection_def
        Let_def odd_iff_mod_2_eq_one even_iff_mod_2_eq_zero)

theorem doc_collection_throw_iff_witness:
  "doc (examplePlatform Map.empty) ''col/doc''
     = Returns (DocumentReference (ResourcePath [''col'', ''doc'']))
   \<and> collection (examplePlatform Map.empty) ''col/doc'' = Throws (NotACollection ''col/doc'')
   \<and> collection (examplePlatform Map.empty) ''col''
     = Returns (CollectionReference (ResourcePath [''col'']))
   \<and> doc (examplePlatform Map.empty) ''col'' = Throws (NotADocument ''col'')
   \<and> doc (examplePlatform Map.empty) '''' = Throws (InvalidArgument ''documentPath'')"
  using doc_collection_throw_iff [of "examplePlatform Map.empty" "''col/doc''"]
  by (simp add: doc_def collection_def append_path_def EMPTY_def isDocument_def isCollection_def
        examplePlatform_def)

text \<open>
  C9, as amended. \<^verbatim>\<open>terminate\<close> rejects when the count of registered listeners or of
  open bulk writers is greater than zero, and then the client is unchanged: the pool is
  not asked to terminate. It hands over to the pool exactly when neither count is
  greater than zero, which includes the case that both are zero.
\<close>

theorem terminate_guard:
  "(0 < registeredListenersCount s \<or> 0 < bulkWritersCount s
      \<longrightarrow> terminate s poolResult
            = (Rejects (CannotTerminate (registeredListenersCount s) (bulkWritersCount s)), s))
   \<and> (registeredListenersCount s = 0 \<and> bulkWritersCount s = 0
      \<longrightarrow> terminate s poolResult = (poolResult, s\<lparr>poolLog := poolLog s @ [PoolTerminate]\<rparr>))
   \<and> (registeredListenersCount s \<le> 0 \<and> bulkWritersCount s \<le> 0
      \<longrightarrow> terminate s poolResult = (poolResult, s\<lparr>poolLog := poolLog s @ [PoolTerminate]\<rparr>))
   \<and> (poolLog (snd (terminate s poolResult)) \<noteq> poolLog s
      \<longleftrightarrow> registeredListenersCount s \<le> 0 \<and> bulkWritersCount s \<le> 0)"
  by (auto simp: terminate_def)

theorem terminate_guard_witness:
  "terminate (registerListener exampleClient) (Resolves ())
     = (Rejects (CannotTerminate 1 0), registerListener exampleClient)
   \<and> poolLog (snd (terminate (unregisterListener (registerListener exampleClient)) (Resolves ())))
     = [GetProjectId, PoolTerminate]"
  using terminate_guard [of "registerListener exampleClient" "Resolves ()"]
        terminate_guard [of "unregisterListener (registerListener exampleClient)" "Resolves ()"]
  by (simp add: terminate_def registerListener_def unregisterListener_def exampleClient_def
        initializeIfNeeded_def fresh_def withOwnerHeader_def getProp_def)

text \<open>
  C9 as stated fails: the decrement of the listener count is unchecked, and with a
  count below zero \<^verbatim>\<open>terminate\<close> hands over to the pool although not both counts are
  zero.
\<close>

theorem terminate_below_zero_reaches_pool:
  "registeredListenersCount (unregisterListener fresh) = - 1
   \<and> bulkWritersCount (unregisterListener fresh) = 0
   \<and> fst (terminate (unregisterListener fresh) (Resolves ())) = Resolves ()
   \<and> poolLog (snd (terminate (unregisterListener fresh) (Resolves ()))) = [PoolTerminate]"
  by (simp add: terminate_def unregisterListener_def fresh_def)



section \<open>Frozen settings\<close>

lemma validateAndApplySettings_frozen:
  "fs_settingsFrozen (snd (validateAndApplySettings p s st)) = fs_settingsFrozen s"
  by (simp add: validateAndApplySettings_def split: jsval.splits call_result.splits)

lemma settings_frozen_after:
  "settings p s arg = (Returns u, s') \<Longrightarrow> fs_settingsFrozen s'"
  by (auto simp: settings_def split: if_splits prod.splits call_result.splits)

lemma settings_when_frozen:
  "fs_settingsFrozen s \<Longrightarrow> \<exists>e. settings p s arg = (Throws e, s)"
  by (simp add: settings_def)

lemma initializeIfNeeded_frozen: "fs_settingsFrozen (snd (initializeIfNeeded s detected))"
  by (simp add: initializeIfNeeded_def Let_def split: option.splits promise.splits)

lemma exec_frozen: "fs_settingsFrozen s \<Longrightarrow> fs_settingsFrozen (exec p s operation)"
proof (cases operation)
  case (CallSettings arg)
  assume "fs_settingsFrozen s"
  with settings_when_frozen [of s p arg] CallSettings show ?thesis by auto
next
  case (CallInitializeIfNeeded d)
  then show ?thesis by (simp add: initializeIfNeeded_frozen)
next
  case (CallRunTransaction d f opts)
  assume "fs_settingsFrozen s"
  with CallRunTransaction initializeIfNeeded_frozen [of s d] show ?thesis
    by (auto simp: runTransaction_def split: call_result.splits prod.splits promise.splits)
next
  case (CallTerminate pr)
  assume "fs_settingsFrozen s"
  with CallTerminate show ?thesis by (simp add: terminate_def)
next
  case (CallRequest m rc)
  assume "fs_settingsFrozen s"
  with CallRequest show ?thesis by (simp add: request_def split: call_result.splits)
next
  case (CallRequestStream m b)
  assume "fs_settingsFrozen s"
  with CallRequestStream show ?thesis
    by (simp add: requestStream_def Let_def split: call_result.splits)
qed (simp_all add: registerListener_def unregisterListener_def incrementBulkWritersCount_def
       decrementBulkWritersCount_def)

lemma foldl_exec_frozen:
  "fs_settingsFrozen s \<Longrightarrow> fs_settingsFrozen (foldl (exec p) s operations)"
  by (induction operations arbitrary: s) (simp_all add: exec_frozen)

text \<open>
  C10. A successful \<^verbatim>\<open>settings()\<close> call freezes the settings, and so does every
  initialization (also the one that \<^verbatim>\<open>runTransaction\<close> triggers). Once they are frozen,
  every call of \<^verbatim>\<open>settings()\<close> throws and leaves the client, with its stored settings,
  as it was; and no sequence of calls clears the flag.
\<close>

theorem settings_frozen_for_good:
  "(settings p s arg = (Returns (), s') \<longrightarrow> fs_settingsFrozen s')
   \<and> fs_settingsFrozen (snd (initializeIfNeeded s detected))
   \<and> fs_settingsFrozen (snd (runTransaction s detected (JObj FunctionObject m) JUndefined))
   \<and> (fs_settingsFrozen s \<longrightarrow> (\<exists>e. settings p s arg = (Throws e, s)))
   \<and> (fs_settingsFrozen s \<longrightarrow> fs_settingsFrozen (foldl (exec p) s operations))"
proof -
  have "fs_settingsFrozen (snd (runTransaction s detected (JObj FunctionObject m) JUndefined))"
    using initializeIfNeeded_frozen [of s detected]
    by (auto simp: runTransaction_def readTransactionOptions_def split: prod.splits promise.splits)
  then show ?thesis
    using settings_frozen_after settings_when_frozen initializeIfNeeded_frozen foldl_exec_frozen
    by blast
qed

theorem settings_frozen_for_good_witness:
  "fst (settings (examplePlatform Map.empty) fresh (JObj PlainObject [''projectId'' \<mapsto> JStr ''demo'']))
     = Returns ()
   \<and> settings (examplePlatform Map.empty)
       (snd (settings (examplePlatform Map.empty) fresh
               (JObj PlainObject [''projectId'' \<mapsto> JStr ''demo''])))
       (JObj PlainObject [''projectId'' \<mapsto> JStr ''other''])
     = (Throws AlreadyInitialized,
        snd (settings (examplePlatform Map.empty) fresh
               (JObj PlainObject [''projectId'' \<mapsto> JStr ''demo''])))
   \<and> settings (examplePlatform Map.empty) exampleClient JNull
     = (Throws (InvalidArgument ''settings''), exampleClient)"
proof -
  let ?P = "examplePlatform Map.empty"
  let ?first = "settings ?P fresh (JObj PlainObject [''projectId'' \<mapsto> JStr ''demo''])"
  have f: "fst ?first = Returns ()"
    by (simp add: settings_def validateAndApplySettings_def resolveHost_def emulatorHost_def
          checkSslAndChannels_def fresh_def getProp_def examplePlatform_def)
  then have h: "?first = (Returns (), snd ?first)" by (metis prod.collapse)
  from settings_frozen_for_good [of ?P fresh _ "snd ?first"] h
  have fr: "fs_settingsFrozen (snd ?first)" by blast
  then have "settings ?P (snd ?first) (JObj PlainObject [''projectId'' \<mapsto> JStr ''other''])
     = (Throws AlreadyInitialized, snd ?first)"
    by (simp add: settings_def getProp_def)
  moreover have "settings ?P exampleClient JNull = (Throws (InvalidArgument ''settings''), exampleClient)"
    by (simp add: settings_def)
  ultimately show ?thesis using f by simp
qed


section \<open>The emulator host\<close>

lemma checkSslAndChannels_Returns:
  "checkSslAndChannels st = Returns st' \<Longrightarrow> st' = st"
  by (auto simp: checkSslAndChannels_def split: if_splits)

lemma resolveHost_emulator:
  assumes "env p ''FIRESTORE_EMULATOR_HOST'' = Some h" "h \<noteq> []"
      and "resolveHost p st = Returns st'"
  shows "hostOk p h
       \<and> st' = storeHost (URL p (''http://'' @ h)) (st(''host'' \<mapsto> JStr h, ''ssl'' \<mapsto> JBool False))"
  using assms
  by (auto simp: resolveHost_def emulatorHost_def split: if_splits dest: checkSslAndChannels_Returns)

lemma storeHost_emulator_props:
  "getProp (storeHost u (st(''host'' \<mapsto> JStr h, ''ssl'' \<mapsto> JBool False))) ''servicePath''
     = JStr (hostname u)"
  "getProp (storeHost u (st(''host'' \<mapsto> JStr h, ''ssl'' \<mapsto> JBool False))) ''ssl'' = JBool False"
  "getProp (storeHost u (st(''host'' \<mapsto> JStr h, ''ssl'' \<mapsto> JBool False))) ''host'' = JUndefined"
  "getProp (storeHost u (st(''host'' \<mapsto> JStr h, ''ssl'' \<mapsto> JBool False))) ''port''
     = (if port u \<noteq> [] \<and> isUndefined (getProp st ''port'') then Number_of_digits (port u)
        else getProp st ''port'')"
  by (simp_all add: storeHost_def getProp_def Let_def)

lemma validateAndApplySettings_Returns:
  "validateAndApplySettings p s st = (Returns u, s')
     \<Longrightarrow> \<exists>st'. resolveHost p st = Returns st' \<and> fs_settings s' = st'"
  by (auto simp: validateAndApplySettings_def split: jsval.splits call_result.splits)

lemma emulator_applied:
  assumes "env p ''FIRESTORE_EMULATOR_HOST'' = Some h" "h \<noteq> []"
      and "validateAndApplySettings p s st = (Returns v, s')"
  shows "hostOk p h
       \<and> getProp (fs_settings s') ''servicePath'' = JStr (hostname (URL p (''http://'' @ h)))
       \<and> getProp (fs_settings s') ''ssl'' = JBool False
       \<and> getProp (fs_settings s') ''host'' = JUndefined
       \<and> getProp (fs_settings s') ''port''
           = (if port (URL p (''http://'' @ h)) \<noteq> [] \<and> isUndefined (getProp st ''port'')
              then Number_of_digits (port (URL p (''http://'' @ h))) else getProp st ''port'')"
proof -
  from validateAndApplySettings_Returns [OF assms(3)]
  obtain st' where r: "resolveHost p st = Returns st'" and s': "fs_settings s' = st'" by blast
  from resolveHost_emulator [OF assms(1,2) r] s' show ?thesis
    by (simp add: storeHost_emulator_props)
qed

lemma emulator_accepts:
  assumes "env p ''FIRESTORE_EMULATOR_HOST'' = Some h" "h \<noteq> []" "hostOk p h"
      and "validateString True (getProp st ''projectId'')"
      and "validateInteger True 0 (getProp st ''maxIdleChannels'')"
  shows "\<exists>s'. validateAndApplySettings p s st = (Returns (), s')"
proof -
  define u where "u = URL p (''http://'' @ h)"
  define st2 where "st2 = storeHost u (st(''host'' \<mapsto> JStr h, ''ssl'' \<mapsto> JBool False))"
  have m: "getProp st2 ''maxIdleChannels'' = getProp st ''maxIdleChannels''"
    by (simp add: st2_def storeHost_def getProp_def Let_def)
  have ssl: "getProp st2 ''ssl'' = JBool False"
    by (simp add: st2_def storeHost_emulator_props)
  have "validateInteger False 0 (getProp st ''maxIdleChannels'')"
    if "\<not> isUndefined (getProp st ''maxIdleChannels'')"
    using that assms(5) by (simp add: validateInteger_present)
  then have "checkSslAndChannels st2 = Returns st2"
    by (auto simp: checkSslAndChannels_def ssl m)
  with assms(1-3) have "resolveHost p st = Returns st2"
    by (simp add: resolveHost_def emulatorHost_def st2_def u_def)
  with assms(4) show ?thesis
    by (cases "getProp st ''projectId''") (simp_all add: validateAndApplySettings_def)
qed

text \<open>
  What holds of the emulator host: with \<^verbatim>\<open>FIRESTORE_EMULATOR_HOST\<close> set to a non-empty
  value, applying settings that pass the checks stores the host name of the variable as
  the service path and disables SSL, whatever host or ssl value the given settings
  hold, and the host key is removed. The port of the variable is stored only under the
  guard of the source: the parsed port is not empty and the given settings have no
  port.
\<close>

theorem emulator_host_applied:
  assumes "env p ''FIRESTORE_EMULATOR_HOST'' = Some h" and "h \<noteq> []"
  shows "(hostOk p h \<and> validateString True (getProp given ''projectId'')
            \<and> validateInteger True 0 (getProp given ''maxIdleChannels'')
          \<longrightarrow> (\<exists>s'. validateAndApplySettings p s given = (Returns (), s')))
       \<and> (validateAndApplySettings p s given = (Returns (), s')
          \<longrightarrow> getProp (fs_settings s') ''servicePath'' = JStr (hostname (URL p (''http://'' @ h)))
              \<and> getProp (fs_settings s') ''ssl'' = JBool False
              \<and> getProp (fs_settings s') ''host'' = JUndefined
              \<and> getProp (fs_settings s') ''port''
                  = (if port (URL p (''http://'' @ h)) \<noteq> [] \<and> isUndefined (getProp given ''port'')
                     then Number_of_digits (port (URL p (''http://'' @ h)))
                     else getProp given ''port''))
       \<and> (constructor p arg = Returns s'
          \<longrightarrow> getProp (fs_settings s') ''servicePath'' = JStr (hostname (URL p (''http://'' @ h)))
              \<and> getProp (fs_settings s') ''ssl'' = JBool False
              \<and> getProp (fs_settings s') ''host'' = JUndefined)
       \<and> (settings p s arg = (Returns (), s')
          \<longrightarrow> getProp (fs_settings s') ''servicePath'' = JStr (hostname (URL p (''http://'' @ h)))
              \<and> getProp (fs_settings s') ''ssl'' = JBool False
              \<and> getProp (fs_settings s') ''host'' = JUndefined)"
proof -
  have A: "hostOk p h \<and> validateString True (getProp given ''projectId'')
            \<and> validateInteger True 0 (getProp given ''maxIdleChannels'')
          \<longrightarrow> (\<exists>s'. validateAndApplySettings p s given = (Returns (), s'))"
    using emulator_accepts [OF assms] by blast
  have B: "validateAndApplySettings p s given = (Returns (), s')
          \<longrightarrow> getProp (fs_settings s') ''servicePath'' = JStr (hostname (URL p (''http://'' @ h)))
              \<and> getProp (fs_settings s') ''ssl'' = JBool False
              \<and> getProp (fs_settings s') ''host'' = JUndefined
              \<and> getProp (fs_settings s') ''port''
                  = (if port (URL p (''http://'' @ h)) \<noteq> [] \<and> isUndefined (getProp given ''port'')
                     then Number_of_digits (port (URL p (''http://'' @ h)))
                     else getProp given ''port'')"
    using emulator_applied [OF assms] by blast
  have C: "constructor p arg = Returns s'
          \<longrightarrow> getProp (fs_settings s') ''servicePath'' = JStr (hostname (URL p (''http://'' @ h)))
              \<and> getProp (fs_settings s') ''ssl'' = JBool False
              \<and> getProp (fs_settings s') ''host'' = JUndefined"
  proof
    assume "constructor p arg = Returns s'"
    then have "\<exists>v. validateAndApplySettings p fresh (ownProps arg ++ libraryHeader p arg) = (Returns v, s')"
      by (auto simp: constructor_def split: prod.splits call_result.splits)
    then show "getProp (fs_settings s') ''servicePath'' = JStr (hostname (URL p (''http://'' @ h)))
              \<and> getProp (fs_settings s') ''ssl'' = JBool False
              \<and> getProp (fs_settings s') ''host'' = JUndefined"
      using emulator_applied [OF assms] by blast
  qed
  have D: "settings p s arg = (Returns (), s')
          \<longrightarrow> getProp (fs_settings s') ''servicePath'' = JStr (hostname (URL p (''http://'' @ h)))
              \<and> getProp (fs_settings s') ''ssl'' = JBool False
              \<and> getProp (fs_settings s') ''host'' = JUndefined"
  proof
    assume "settings p s arg = (Returns (), s')"
    then obtain s1 v where v: "validateAndApplySettings p s (fs_settings s ++ ownProps arg) = (Returns v, s1)"
      and s': "s' = s1\<lparr>fs_settingsFrozen := True\<rparr>"
      by (auto simp: settings_def split: if_splits prod.splits call_result.splits)
    from emulator_applied [OF assms v] s'
    show "getProp (fs_settings s') ''servicePath'' = JStr (hostname (URL p (''http://'' @ h)))
              \<and> getProp (fs_settings s') ''ssl'' = JBool False
              \<and> getProp (fs_settings s') ''host'' = JUndefined"
      by simp
  qed
  from A B C D show ?thesis by blast
qed

lemmas settings_example_simps =
  validateAndApplySettings_def resolveHost_def emulatorHost_def checkSslAndChannels_def
  storeHost_def fresh_def getProp_def examplePlatform_def exampleURL_def Number_of_digits_def
  digitValue_def constructor_def libraryHeader_def isInteger_def Let_def

theorem emulator_host_applied_witness:
  "fst (validateAndApplySettings
          (examplePlatform [''FIRESTORE_EMULATOR_HOST'' \<mapsto> ''localhost:8080'']) fresh
          [''host'' \<mapsto> JStr ''example.com'', ''ssl'' \<mapsto> JBool True]) = Returns ()
   \<and> getProp (fs_settings (snd (validateAndApplySettings
          (examplePlatform [''FIRESTORE_EMULATOR_HOST'' \<mapsto> ''localhost:8080'']) fresh
          [''host'' \<mapsto> JStr ''example.com'', ''ssl'' \<mapsto> JBool True]))) ''servicePath''
       = JStr ''localhost''
   \<and> getProp (fs_settings (snd (validateAndApplySettings
          (examplePlatform [''FIRESTORE_EMULATOR_HOST'' \<mapsto> ''localhost:8080'']) fresh
          [''host'' \<mapsto> JStr ''example.com'', ''ssl'' \<mapsto> JBool True]))) ''ssl''
       = JBool False
   \<and> getProp (fs_settings (snd (validateAndApplySettings
          (examplePlatform [''FIRESTORE_EMULATOR_HOST'' \<mapsto> ''localhost:8080'']) fresh
          [''host'' \<mapsto> JStr ''example.com'', ''ssl'' \<mapsto> JBool True]))) ''port''
       = JNum (Finite 8080)"
proof -
  let ?P = "examplePlatform [''FIRESTORE_EMULATOR_HOST'' \<mapsto> ''localhost:8080'']"
  let ?G = "[''host'' \<mapsto> JStr ''example.com'', ''ssl'' \<mapsto> JBool True]"
  let ?run = "validateAndApplySettings ?P fresh ?G"
  have e: "env ?P ''FIRESTORE_EMULATOR_HOST'' = Some ''localhost:8080''"
    by (simp add: examplePlatform_def)
  have f: "fst ?run = Returns ()" by (simp add: settings_example_simps)
  then have h: "?run = (Returns (), snd ?run)" by (metis prod.collapse)
  have u: "URL ?P (''http://'' @ ''localhost:8080'') = \<lparr>hostname = ''localhost'', port = ''8080''\<rparr>"
    by (simp add: examplePlatform_def exampleURL_def)
  have n: "Number_of_digits ''8080'' = JNum (Finite 8080)"
    by (simp add: Number_of_digits_def digitValue_def)
  from emulator_host_applied [OF e, of ?G fresh "snd ?run"] h
  have "getProp (fs_settings (snd ?run)) ''servicePath''
          = JStr (hostname (URL ?P (''http://'' @ ''localhost:8080'')))
      \<and> getProp (fs_settings (snd ?run)) ''ssl'' = JBool False
      \<and> getProp (fs_settings (snd ?run)) ''port''
          = (if port (URL ?P (''http://'' @ ''localhost:8080'')) \<noteq> [] \<and> isUndefined (getProp ?G ''port'')
             then Number_of_digits (port (URL ?P (''http://'' @ ''localhost:8080'')))
             else getProp ?G ''port'')"
    by blast
  with f show ?thesis unfolding u by (simp add: n getProp_def)
qed

text \<open>
  C5. The claim, like the comment in \<^verbatim>\<open>validateAndApplySettings\<close> ("it should always
  take precedence over any user passed in settings"), has the host and port of
  \<^verbatim>\<open>FIRESTORE_EMULATOR_HOST\<close> win over the settings. The code does so for the host and
  for SSL but not for the port: constructed with the variable set to
  \<^verbatim>\<open>localhost:8080\<close> and the settings \<^verbatim>\<open>{port: 1234}\<close>, the client stores the service
  path \<^verbatim>\<open>localhost\<close> and \<^verbatim>\<open>ssl: false\<close>, yet keeps the port 1234 of the settings,
  while the port of the variable is 8080.
\<close>

theorem emulator_port_yields_to_settings:
  "(case constructor (examplePlatform [''FIRESTORE_EMULATOR_HOST'' \<mapsto> ''localhost:8080''])
           (JObj PlainObject [''port'' \<mapsto> JNum (Finite 1234)]) of
      Returns c \<Rightarrow> getProp (fs_settings c) ''port''
    | Throws e \<Rightarrow> JUndefined) = JNum (Finite 1234)
   \<and> (case constructor (examplePlatform [''FIRESTORE_EMULATOR_HOST'' \<mapsto> ''localhost:8080''])
           (JObj PlainObject [''port'' \<mapsto> JNum (Finite 1234)]) of
      Returns c \<Rightarrow> getProp (fs_settings c) ''servicePath''
    | Throws e \<Rightarrow> JUndefined) = JStr ''localhost''
   \<and> (case constructor (examplePlatform [''FIRESTORE_EMULATOR_HOST'' \<mapsto> ''localhost:8080''])
           (JObj PlainObject [''port'' \<mapsto> JNum (Finite 1234)]) of
      Returns c \<Rightarrow> getProp (fs_settings c) ''ssl''
    | Throws e \<Rightarrow> JUndefined) = JBool False
   \<and> port (URL (examplePlatform [''FIRESTORE_EMULATOR_HOST'' \<mapsto> ''localhost:8080''])
              ''http://localhost:8080'') = ''8080''
   \<and> Number_of_digits ''8080'' = JNum (Finite 8080)"
  by (simp add: settings_example_simps)


section \<open>The routing header\<close>

lemma method_headers:
  "(case v of JUndefined \<Rightarrow> Map.empty | JNull \<Rightarrow> Map.empty
      | w \<Rightarrow> ownProps (getMember w ''customHeaders''))
     = ownProps (getMember v ''customHeaders'')"
  by (cases v) simp_all

lemma createCallOptions_ready:
  assumes "fs_projectId s = Some pid"
  shows "createCallOptions p s m rc =
     Returns \<lparr>headers =
                [CLOUD_RESOURCE_HEADER \<mapsto> JStr (''projects/'' @ pid @ ''/databases/(default)'')]
                  ++ ownProps (getProp (fs_settings s) ''customHeaders'')
                  ++ ownProps (getMember (getProp (fs_settings s) m) ''customHeaders''),
              retryOptions = (if env p ''FIRESTORE_USE_REST_API'' = Some ''true'' then None else rc)\<rparr>"
  using assms
  by (simp add: createCallOptions_def formattedName_def projectId_def DEFAULT_DATABASE_ID_def
        method_headers)

text \<open>
  C6, as amended. For a client with a project ID, the call options of every unary and
  streaming call hold the routing header. Its value is the database root
  \<^verbatim>\<open>projects/<projectId>/databases/(default)\<close> unless the custom headers of the method
  or of the client define a header of the same name; then the custom value is sent,
  the method's before the client's.
\<close>

theorem routing_header_attached:
  assumes "fs_projectId s = Some pid"
  shows "\<exists>opts. createCallOptions p s m rc = Returns opts
       \<and> headers opts CLOUD_RESOURCE_HEADER
           = (case ownProps (getMember (getProp (fs_settings s) m) ''customHeaders'')
                     CLOUD_RESOURCE_HEADER of
                Some v \<Rightarrow> Some v
              | None \<Rightarrow>
                  (case ownProps (getProp (fs_settings s) ''customHeaders'')
                          CLOUD_RESOURCE_HEADER of
                     Some v \<Rightarrow> Some v
                   | None \<Rightarrow> Some (JStr (''projects/'' @ pid @ ''/databases/(default)''))))
       \<and> headers opts CLOUD_RESOURCE_HEADER \<noteq> None
       \<and> request p s m rc response
           = (Returns response, s\<lparr>poolLog := poolLog s @ [UnaryCall m opts]\<rparr>)
       \<and> (rc = None
          \<longrightarrow> (\<exists>r n. requestStream p s m backends
                       = (Returns r, s\<lparr>poolLog := poolLog s @ replicate n (StreamCall m opts)\<rparr>)))"
proof -
  let ?opts = "\<lparr>headers =
                [CLOUD_RESOURCE_HEADER \<mapsto> JStr (''projects/'' @ pid @ ''/databases/(default)'')]
                  ++ ownProps (getProp (fs_settings s) ''customHeaders'')
                  ++ ownProps (getMember (getProp (fs_settings s) m) ''customHeaders''),
              retryOptions = (if env p ''FIRESTORE_USE_REST_API'' = Some ''true'' then None else rc)\<rparr>"
  note c = createCallOptions_ready [OF assms, of p m]
  have 1: "createCallOptions p s m rc = Returns ?opts" by (rule c)
  have 2: "headers ?opts CLOUD_RESOURCE_HEADER
           = (case ownProps (getMember (getProp (fs_settings s) m) ''customHeaders'')
                     CLOUD_RESOURCE_HEADER of
                Some v \<Rightarrow> Some v
              | None \<Rightarrow>
                  (case ownProps (getProp (fs_settings s) ''customHeaders'')
                          CLOUD_RESOURCE_HEADER of
                     Some v \<Rightarrow> Some v
                   | None \<Rightarrow> Some (JStr (''projects/'' @ pid @ ''/databases/(default)''))))"
    by (simp add: map_add_def split: option.splits)
  have 3: "headers ?opts CLOUD_RESOURCE_HEADER \<noteq> None"
    by (auto simp: map_add_def split: option.splits)
  have 4: "request p s m rc response
           = (Returns response, s\<lparr>poolLog := poolLog s @ [UnaryCall m ?opts]\<rparr>)"
    by (simp add: request_def c)
  have 5: "rc = None
          \<longrightarrow> (\<exists>r n. requestStream p s m backends
                       = (Returns r, s\<lparr>poolLog := poolLog s @ replicate n (StreamCall m ?opts)\<rparr>))"
    by (auto simp: requestStream_def c Let_def)
  from 1 2 3 4 5 show ?thesis by blast
qed

theorem routing_header_attached_witness:
  "(case createCallOptions (examplePlatform Map.empty) exampleClient ''commit'' None of
      Returns opts \<Rightarrow> headers opts CLOUD_RESOURCE_HEADER
    | Throws e \<Rightarrow> None) = Some (JStr ''projects/demo/databases/(default)'')"
proof -
  have p: "fs_projectId exampleClient = Some ''demo''"
    by (simp add: exampleClient_def initializeIfNeeded_def fresh_def withOwnerHeader_def getProp_def)
  have c: "ownProps (getProp (fs_settings exampleClient) ''customHeaders'') CLOUD_RESOURCE_HEADER = None"
    "ownProps (getMember (getProp (fs_settings exampleClient) ''commit'') ''customHeaders'')
       CLOUD_RESOURCE_HEADER = None"
    by (simp_all add: exampleClient_def initializeIfNeeded_def fresh_def withOwnerHeader_def
          getProp_def)
  from routing_header_attached [OF p, of "examplePlatform Map.empty" "''commit''" None]
  obtain opts where o: "createCallOptions (examplePlatform Map.empty) exampleClient ''commit'' None
      = Returns opts"
    and h: "headers opts CLOUD_RESOURCE_HEADER
           = (case ownProps (getMember (getProp (fs_settings exampleClient) ''commit'') ''customHeaders'')
                     CLOUD_RESOURCE_HEADER of
                Some v \<Rightarrow> Some v
              | None \<Rightarrow>
                  (case ownProps (getProp (fs_settings exampleClient) ''customHeaders'')
                          CLOUD_RESOURCE_HEADER of
                     Some v \<Rightarrow> Some v
                   | None \<Rightarrow> Some (JStr (''projects/'' @ ''demo'' @ ''/databases/(default)''))))"
    by blast
  from h c have "headers opts CLOUD_RESOURCE_HEADER = Some (JStr ''projects/demo/databases/(default)'')"
    by simp
  with o show ?thesis by simp
qed

text \<open>
  C6 as stated fails: a custom header named like the routing header replaces its
  value.
\<close>

theorem custom_header_replaces_routing_header:
  "(case constructor (examplePlatform Map.empty)
           (JObj PlainObject
              [''projectId'' \<mapsto> JStr ''demo'',
               ''customHeaders'' \<mapsto>
                  JObj PlainObject [''google-cloud-resource-prefix'' \<mapsto> JStr ''elsewhere'']]) of
      Returns c \<Rightarrow>
        (case createCallOptions (examplePlatform Map.empty) c ''commit'' None of
           Returns opts \<Rightarrow> headers opts CLOUD_RESOURCE_HEADER
         | Throws e \<Rightarrow> None)
    | Throws e \<Rightarrow> None) = Some (JStr ''elsewhere'')
   \<and> (case constructor (examplePlatform Map.empty)
           (JObj PlainObject
              [''projectId'' \<mapsto> JStr ''demo'',
               ''customHeaders'' \<mapsto>
                  JObj PlainObject [''google-cloud-resource-prefix'' \<mapsto> JStr ''elsewhere'']]) of
      Returns c \<Rightarrow> formattedName c
    | Throws e \<Rightarrow> Throws e) = Returns ''projects/demo/databases/(default)''"
  by (simp add: settings_example_simps createCallOptions_def formattedName_def projectId_def
        DEFAULT_DATABASE_ID_def CLOUD_RESOURCE_HEADER_def map_add_def)

end
